theory Spec2Isabelle
  imports Main
begin

section \<open>Machine integers and memory\<close>

text \<open>
  The program computes with C \<^verbatim>\<open>int\<close>, 32 bits wide on the targets where MPI runs.
  Values are modelled as \<open>int\<close> and every arithmetic result that can leave the range
  is passed through \<open>wrap32\<close>, the two's-complement wrap-around. (ISO C leaves signed
  overflow undefined; the wrap-around is what the usual targets compute.)
\<close>

definition wrap32 :: "int \<Rightarrow> int" where
  "wrap32 x = (x + 2147483648) mod 4294967296 - 2147483648"

text \<open>
  \<^verbatim>\<open>malloc\<close> either fails (\<open>None\<close>, the null pointer) or returns a block whose cells
  hold indeterminate values; \<open>Some g\<close> is a successful allocation whose cell \<open>i\<close>
  initially holds \<open>g i\<close>.
\<close>

type_synonym basura = "(nat \<Rightarrow> int) option"

fun malloc_int :: "basura \<Rightarrow> nat \<Rightarrow> int list option" where
  "malloc_int None n = None"
| "malloc_int (Some g) n = Some (map g [0..<n])"

definition memoria_cero :: "nat \<Rightarrow> int" where
  "memoria_cero i = 0"

definition memoria_sucia :: "nat \<Rightarrow> int" where
  "memoria_sucia i = 7 + int i"

text \<open>
  The ways a call can fail. \<open>AllocationError\<close> is the failure the specification
  names for an allocation that cannot be satisfied; no path of the program produces it.
  The others are a write through a null pointer, an access outside an allocated block,
  and an error reported by the MPI library (fatal under the default error handler).
\<close>

datatype fallo =
    AllocationError
  | EscrituraPunteroNulo
  | AccesoFueraDeRango
  | ErrorMPI

section \<open>The derived datatype\<close>

text \<open>
  What \<^verbatim>\<open>MPI_Type_indexed(count, blocklens, displs, MPI_INT, &t)\<close> records: the
  first \<open>count\<close> entries of the two tables (the library copies them, the caller frees
  its own arrays afterwards), and whether the type has been committed.
\<close>

record tipo_mpi =
  cuenta :: int
  longitudes :: "int list"
  desplazamientos :: "int list"
  comprometido :: bool

definition mpi_type_indexed :: "int \<Rightarrow> int list \<Rightarrow> int list \<Rightarrow> fallo + tipo_mpi" where
  "mpi_type_indexed count blocklens displs =
     (if count < 0 then Inl ErrorMPI
      else Inr \<lparr>cuenta = count,
                longitudes = take (nat count) blocklens,
                desplazamientos = take (nat count) displs,
                comprometido = False\<rparr>)"

definition mpi_type_commit :: "tipo_mpi \<Rightarrow> tipo_mpi" where
  "mpi_type_commit t = t\<lparr>comprometido := True\<rparr>"

text \<open>
  The loop of \<^verbatim>\<open>generar_tipo_triangular_superior\<close> (lines 28 to 33). \<open>fila\<close> stays
  below \<open>dimension\<close>, so \<^verbatim>\<open>fila++\<close> cannot overflow and both writes are inside
  the blocks of \<open>dimension\<close> cells.
\<close>

function bucle_bloques :: "int \<Rightarrow> int \<Rightarrow> int list \<times> int list \<Rightarrow> int list \<times> int list" where
  "bucle_bloques dimension fila (longitudes_bloques, despl) =
     (if fila < dimension
      then bucle_bloques dimension (fila + 1)
             (longitudes_bloques[nat fila := wrap32 (dimension - fila)],
              despl[nat fila := wrap32 (wrap32 (fila * dimension) + fila)])
      else (longitudes_bloques, despl))"
  by pat_completeness auto
termination
  by (relation "measure (\<lambda>(dimension, fila, _). nat (dimension - fila))") auto

text \<open>
  \<^verbatim>\<open>generar_tipo_triangular_superior\<close>. The two \<^verbatim>\<open>malloc\<close> results are not
  tested: with a null table the first iteration writes through the null pointer.
\<close>

definition generar_tipo_triangular_superior :: "basura \<Rightarrow> basura \<Rightarrow> int \<Rightarrow> fallo + tipo_mpi" where
  "generar_tipo_triangular_superior mem_l mem_d dimension =
     (case (malloc_int mem_l (nat dimension), malloc_int mem_d (nat dimension)) of
        (Some longitudes_bloques, Some despl) \<Rightarrow>
          (case bucle_bloques dimension 0 (longitudes_bloques, despl) of
             (ls, ds) \<Rightarrow> map_sum id mpi_type_commit (mpi_type_indexed dimension ls ds))
      | _ \<Rightarrow>
          if 0 < dimension then Inl EscrituraPunteroNulo
          else map_sum id mpi_type_commit (mpi_type_indexed dimension [] []))"

text \<open>
  The type map of a derived datatype: the element displacements it names, block after
  block, in the order in which a transfer walks them.
\<close>

definition bloque :: "int \<Rightarrow> int \<Rightarrow> int list" where
  "bloque l d = map (\<lambda>k. d + int k) [0..<nat l]"

definition mapa_tipo :: "tipo_mpi \<Rightarrow> int list" where
  "mapa_tipo t = concat (map2 bloque (longitudes t) (desplazamientos t))"

text \<open>
  The descriptor in the words of the specification: one block per row \<open>r\<close>, of length
  \<open>dimension - r\<close>, at flat offset \<open>r * dimension + r\<close>.
\<close>

definition descriptor_especificado :: "int \<Rightarrow> tipo_mpi" where
  "descriptor_especificado dimension =
     \<lparr>cuenta = dimension,
      longitudes = map (\<lambda>r. dimension - int r) [0..<nat dimension],
      desplazamientos = map (\<lambda>r. int r * dimension + int r) [0..<nat dimension],
      comprometido = True\<rparr>"

definition triangulo_superior :: "int \<Rightarrow> int set" where
  "triangulo_superior dimension =
     {r * dimension + c | r c. 0 \<le> r \<and> r < dimension \<and> r \<le> c \<and> c < dimension}"

text \<open>Row \<open>r\<close> of the specified descriptor, as the list of offsets it names.\<close>

definition bloque_fila :: "int \<Rightarrow> nat \<Rightarrow> int list" where
  "bloque_fila dimension r = bloque (dimension - int r) (int r * dimension + int r)"

section \<open>The transfer\<close>

text \<open>
  Modelled from the spec: \<^verbatim>\<open>MPI_Send\<close> and \<^verbatim>\<open>MPI_Recv\<close> are calls into the MPI
  library, which is not part of the sources. Both receive a pointer to the buffer of the
  caller, so each is modelled as a function of the contents of that buffer which returns
  its contents after the call. Following section 4.2 (and, for what a type map is, the
  MPI standard), a send with count 1 hands off the values of the buffer at the offsets the
  descriptor names, in type-map order, and leaves the buffer as it is; a receive stores
  the values of the message at the offsets the descriptor names, in the same order, and
  touches no other cell. An uncommitted type, or a message longer than the receive type,
  is an MPI error; a named offset outside the buffer is an invalid access.

  \<open>mpi_send\<close> returns the buffer after the call together with the message handed
  off. Whether and when the call returns is the rendezvous, which belongs to the run of
  the group.
\<close>

definition en_rango :: "int list \<Rightarrow> int \<Rightarrow> bool" where
  "en_rango buf d \<longleftrightarrow> 0 \<le> d \<and> d < int (length buf)"

definition mpi_send :: "int list \<Rightarrow> tipo_mpi \<Rightarrow> fallo + (int list \<times> int list)" where
  "mpi_send buf t =
     (if \<not> comprometido t then Inl ErrorMPI
      else if list_all (en_rango buf) (mapa_tipo t)
      then Inr (buf, map (\<lambda>d. buf ! nat d) (mapa_tipo t))
      else Inl AccesoFueraDeRango)"

fun escribir :: "(int \<times> int) list \<Rightarrow> int list \<Rightarrow> int list" where
  "escribir [] buf = buf"
| "escribir ((d, v) # resto) buf = escribir resto (buf[nat d := v])"

definition mpi_recv :: "int list \<Rightarrow> tipo_mpi \<Rightarrow> int list \<Rightarrow> fallo + int list" where
  "mpi_recv buf t mensaje =
     (if \<not> comprometido t then Inl ErrorMPI
      else if length (mapa_tipo t) < length mensaje then Inl ErrorMPI
      else if list_all (en_rango buf) (take (length mensaje) (mapa_tipo t))
      then Inr (escribir (zip (mapa_tipo t) mensaje) buf)
      else Inl AccesoFueraDeRango)"

section \<open>The matrix\<close>

text \<open>
  The loops of \<^verbatim>\<open>crear_matriz\<close>: the inner one over the columns and the outer one
  over the rows. The index \<^verbatim>\<open>fila * dimension + columna\<close> is computed in \<^verbatim>\<open>int\<close>; a write outside
  the allocated block is an invalid access.
\<close>

function bucle_columnas :: "int \<Rightarrow> int \<Rightarrow> int \<Rightarrow> int \<Rightarrow> int list \<Rightarrow> fallo + int list" where
  "bucle_columnas dimension inicializar fila columna matriz =
     (if columna < dimension
      then (let i = wrap32 (wrap32 (fila * dimension) + columna) in
            if 0 \<le> i \<and> i < int (length matriz)
            then bucle_columnas dimension inicializar fila (columna + 1)
                   (matriz[nat i := (if inicializar \<noteq> 0 then i else 0)])
            else Inl AccesoFueraDeRango)
      else Inr matriz)"
  by pat_completeness auto
termination
  by (relation "measure (\<lambda>(dimension, _, _, columna, _). nat (dimension - columna))") auto

function bucle_filas :: "int \<Rightarrow> int \<Rightarrow> int \<Rightarrow> int list \<Rightarrow> fallo + int list" where
  "bucle_filas dimension inicializar fila matriz =
     (if fila < dimension
      then (case bucle_columnas dimension inicializar fila 0 matriz of
              Inl f \<Rightarrow> Inl f
            | Inr matriz' \<Rightarrow> bucle_filas dimension inicializar (fila + 1) matriz')
      else Inr matriz)"
  by pat_completeness auto
termination
  by (relation "measure (\<lambda>(dimension, _, fila, _). nat (dimension - fila))") auto

text \<open>
  \<^verbatim>\<open>crear_matriz\<close>. The number of cells \<^verbatim>\<open>dimension * dimension\<close> is computed in
  \<^verbatim>\<open>int\<close>; a negative product converts to a size no allocation can satisfy. The
  \<^verbatim>\<open>malloc\<close> result is not tested here either. With a null block and no row to
  fill, the null pointer is returned (the empty list).
\<close>

definition crear_matriz :: "basura \<Rightarrow> int \<Rightarrow> int \<Rightarrow> fallo + int list" where
  "crear_matriz mem dimension inicializar =
     (let celdas = wrap32 (dimension * dimension) in
      case (if celdas < 0 then None else malloc_int mem (nat celdas)) of
        None \<Rightarrow> if 0 < dimension then Inl EscrituraPunteroNulo else Inr []
      | Some matriz \<Rightarrow> bucle_filas dimension inicializar 0 matriz)"

section \<open>Configuration\<close>

definition ETIQUETA_MENSAJE :: int where "ETIQUETA_MENSAJE = 10"
definition PROCESO_ORIGEN :: int where "PROCESO_ORIGEN = 0"
definition PROCESO_DESTINO :: int where "PROCESO_DESTINO = 1"
definition NUM_ITERACIONES :: int where "NUM_ITERACIONES = 1"
definition dimension_matriz :: int where "dimension_matriz = 4"

definition fin_de_linea :: string where
  "fin_de_linea = [CHR 0x0A]"

text \<open>
  The body of \<^verbatim>\<open>verificar_configuracion\<close>, with the three macros it reads as
  parameters. \<^verbatim>\<open>MPI_Abort\<close> ends the calling process, so the first check that fails
  decides: the result is the message printed and the code given to \<^verbatim>\<open>MPI_Abort\<close>,
  or \<open>Inr ()\<close> when the function returns.
\<close>

definition verificar_configuracion_con :: "int \<Rightarrow> int \<Rightarrow> int \<Rightarrow> int \<Rightarrow> (string \<times> int) + unit" where
  "verificar_configuracion_con num_iteraciones proceso_origen proceso_destino total_procesos =
     (if num_iteraciones \<noteq> 1
      then Inl (''Error: NUM_ITERACIONES debe ser 1'' @ fin_de_linea, 1)
      else if proceso_origen = proceso_destino
      then Inl (''Error: PROCESO_ORIGEN y PROCESO_DESTINO no pueden ser iguales'' @ fin_de_linea, 1)
      else if total_procesos < 2
      then Inl (''Error: Se requieren al menos 2 procesos para ejecutar este programa''
                  @ fin_de_linea, 1)
      else Inr ())"

definition verificar_configuracion :: "int \<Rightarrow> (string \<times> int) + unit" where
  "verificar_configuracion total_procesos =
     verificar_configuracion_con NUM_ITERACIONES PROCESO_ORIGEN PROCESO_DESTINO total_procesos"

section \<open>One process\<close>

text \<open>
  A process is described by the calls \<^verbatim>\<open>main\<close> makes, in program order, and by how
  it ends. \<open>EvVerificar\<close> is the call of \<^verbatim>\<open>verificar_configuracion\<close>; \<open>EvSend\<close>
  carries the payload, the destination and the tag; \<open>EvRecv\<close> the source and the tag;
  \<open>EvFree\<close> the contents of the block at the moment it is freed; \<open>EvTypeFree\<close>
  the descriptor that is released.
\<close>

datatype evento =
    EvInit
  | EvCommRank
  | EvCommSize
  | EvVerificar int
  | EvPrintf string
  | EvAbort int
  | EvBarrier
  | EvCrearMatriz int int
  | EvGenerarTipo int
  | EvMostrarMatriz "int list" int
  | EvSend "int list" int int
  | EvRecv int int
  | EvFree "int list"
  | EvTypeFree tipo_mpi
  | EvFinalize

datatype terminacion =
    Retorna int
  | Abortado int
  | Fallido fallo
  | Bloqueado

text \<open>
  What is known of a process when it ends: its trace, the message it offered in a send,
  the contents of its own matrix, the descriptor it built, the contents of the matrix it
  received into, and how it ended.
\<close>

record proceso =
  traza :: "evento list"
  enviado :: "int list option"
  matriz_propia :: "int list option"
  tipo_propio :: "tipo_mpi option"
  matriz_recibida :: "int list option"
  salida :: terminacion

text \<open>The outcome of each \<^verbatim>\<open>malloc\<close> of one process, in the order of the calls.\<close>

record memoria =
  mem_matriz :: basura
  mem_longitudes :: basura
  mem_desplazamientos :: basura
  mem_recibida :: basura

definition asignacion_exitosa :: "memoria \<Rightarrow> bool" where
  "asignacion_exitosa mem \<longleftrightarrow>
     mem_matriz mem \<noteq> None \<and> mem_longitudes mem \<noteq> None
     \<and> mem_desplazamientos mem \<noteq> None \<and> mem_recibida mem \<noteq> None"

text \<open>
  What the rest of the group does to a process: \<open>barrera\<close> is \<open>None\<close> when the barrier
  completes and \<open>Some code\<close> when the job is aborted with that code while the process
  waits there; \<open>entrega\<close> is the message matched to a receive from the source with the
  tag (\<open>None\<close>: no such message is ever offered, the receive blocks); \<open>receptor\<close>
  tells whether the destination posts the receive that matches a send with the tag (if
  not, the send blocks).
\<close>

record entorno =
  barrera :: "int option"
  entrega :: "int list option"
  receptor :: bool

definition es_transferencia :: "evento \<Rightarrow> bool" where
  "es_transferencia e = (case e of EvSend _ _ _ \<Rightarrow> True | EvRecv _ _ \<Rightarrow> True | _ \<Rightarrow> False)"

definition es_recepcion :: "evento \<Rightarrow> bool" where
  "es_recepcion e = (case e of EvRecv _ _ \<Rightarrow> True | _ \<Rightarrow> False)"

definition es_liberacion :: "evento \<Rightarrow> bool" where
  "es_liberacion e = (case e of EvFree _ \<Rightarrow> True | EvTypeFree _ \<Rightarrow> True | _ \<Rightarrow> False)"

definition es_verificacion :: "evento \<Rightarrow> bool" where
  "es_verificacion e = (case e of EvVerificar _ \<Rightarrow> True | _ \<Rightarrow> False)"

definition es_barrera :: "evento \<Rightarrow> bool" where
  "es_barrera e = (case e of EvBarrier \<Rightarrow> True | _ \<Rightarrow> False)"

text \<open>The events of a trace before the first one that satisfies \<open>p\<close>.\<close>

definition antes_del_primero :: "(evento \<Rightarrow> bool) \<Rightarrow> evento list \<Rightarrow> evento list" where
  "antes_del_primero p t = takeWhile (\<lambda>e. \<not> p e) t"

definition termina :: "evento list \<Rightarrow> terminacion \<Rightarrow> proceso" where
  "termina t s = \<lparr>traza = t, enviado = None, matriz_propia = None, tipo_propio = None,
                  matriz_recibida = None, salida = s\<rparr>"

text \<open>Lines 158 to 165: the common end of \<^verbatim>\<open>main\<close>.\<close>

definition liberar_recursos :: "evento list \<Rightarrow> int list \<Rightarrow> tipo_mpi \<Rightarrow> evento list" where
  "liberar_recursos t matriz tipo_triang_sup =
     t @ [EvFree matriz, EvTypeFree tipo_triang_sup, EvFinalize]"

text \<open>
  Lines 133 to 141: the branch of the source. The \<^verbatim>\<open>%d\<close> of the message is
  \<^verbatim>\<open>PROCESO_ORIGEN\<close>, that is 0. The matrix the process goes on with is the buffer as
  the send leaves it. The send returns only when the destination posts the matching
  receive; otherwise the process stays blocked in it.
\<close>

definition rama_origen :: "entorno \<Rightarrow> evento list \<Rightarrow> int list \<Rightarrow> tipo_mpi \<Rightarrow> proceso" where
  "rama_origen ent t matriz tipo_triang_sup =
     (let t1 = t @ [EvPrintf (''Matriz enviada por el proceso 0:'' @ fin_de_linea),
                    EvMostrarMatriz matriz dimension_matriz] in
      case mpi_send matriz tipo_triang_sup of
        Inl f \<Rightarrow> (termina t1 (Fallido f))
                   \<lparr>matriz_propia := Some matriz, tipo_propio := Some tipo_triang_sup\<rparr>
      | Inr (matriz', mensaje) \<Rightarrow>
          (let t2 = t1 @ [EvSend mensaje PROCESO_DESTINO ETIQUETA_MENSAJE] in
           if receptor ent
           then \<lparr>traza = liberar_recursos t2 matriz' tipo_triang_sup,
                 enviado = Some mensaje,
                 matriz_propia = Some matriz',
                 tipo_propio = Some tipo_triang_sup,
                 matriz_recibida = None,
                 salida = Retorna 0\<rparr>
           else (termina t2 Bloqueado)
                  \<lparr>enviado := Some mensaje, matriz_propia := Some matriz',
                   tipo_propio := Some tipo_triang_sup\<rparr>))"

text \<open>
  Lines 142 to 156: the branch of the destination. The \<^verbatim>\<open>%d\<close> of the message is
  \<^verbatim>\<open>PROCESO_DESTINO\<close>, that is 1. The receive returns only when the source offers the
  matching message; otherwise the process stays blocked in it.
\<close>

definition rama_destino :: "memoria \<Rightarrow> entorno \<Rightarrow> evento list \<Rightarrow> int list \<Rightarrow> tipo_mpi \<Rightarrow> proceso" where
  "rama_destino mem ent t matriz tipo_triang_sup =
     (let t1 = t @ [EvCrearMatriz dimension_matriz 0] in
      case crear_matriz (mem_recibida mem) dimension_matriz 0 of
        Inl f \<Rightarrow> (termina t1 (Fallido f))
                   \<lparr>matriz_propia := Some matriz, tipo_propio := Some tipo_triang_sup\<rparr>
      | Inr ceros \<Rightarrow>
          (let t2 = t1 @ [EvRecv PROCESO_ORIGEN ETIQUETA_MENSAJE] in
           case entrega ent of
             None \<Rightarrow> (termina t2 Bloqueado)
                       \<lparr>matriz_propia := Some matriz, tipo_propio := Some tipo_triang_sup,
                        matriz_recibida := Some ceros\<rparr>
           | Some mensaje \<Rightarrow>
               (case mpi_recv ceros tipo_triang_sup mensaje of
                  Inl f \<Rightarrow> (termina t2 (Fallido f))
                             \<lparr>matriz_propia := Some matriz, tipo_propio := Some tipo_triang_sup,
                              matriz_recibida := Some ceros\<rparr>
                | Inr recibida \<Rightarrow>
                    \<lparr>traza = liberar_recursos
                               (t2 @ [EvPrintf (''Matriz recibida por el proceso 1:'' @ fin_de_linea),
                                      EvMostrarMatriz recibida dimension_matriz,
                                      EvFree recibida]) matriz tipo_triang_sup,
                     enviado = None,
                     matriz_propia = Some matriz,
                     tipo_propio = Some tipo_triang_sup,
                     matriz_recibida = Some recibida,
                     salida = Retorna 0\<rparr>)))"

text \<open>Lines 124 to 165: \<^verbatim>\<open>main\<close> after the barrier.\<close>

definition despues_barrera :: "memoria \<Rightarrow> entorno \<Rightarrow> int \<Rightarrow> evento list \<Rightarrow> proceso" where
  "despues_barrera mem ent rango_proceso t =
     (let t1 = t @ [EvCrearMatriz dimension_matriz 1] in
      case crear_matriz (mem_matriz mem) dimension_matriz 1 of
        Inl f \<Rightarrow> termina t1 (Fallido f)
      | Inr matriz \<Rightarrow>
          (let t2 = t1 @ [EvGenerarTipo dimension_matriz] in
           case generar_tipo_triangular_superior (mem_longitudes mem) (mem_desplazamientos mem)
                  dimension_matriz of
             Inl f \<Rightarrow> (termina t2 (Fallido f))\<lparr>matriz_propia := Some matriz\<rparr>
           | Inr tipo_triang_sup \<Rightarrow>
               if rango_proceso = PROCESO_ORIGEN then rama_origen ent t2 matriz tipo_triang_sup
               else if rango_proceso = PROCESO_DESTINO
               then rama_destino mem ent t2 matriz tipo_triang_sup
               else \<lparr>traza = liberar_recursos t2 matriz tipo_triang_sup,
                     enviado = None,
                     matriz_propia = Some matriz,
                     tipo_propio = Some tipo_triang_sup,
                     matriz_recibida = None,
                     salida = Retorna 0\<rparr>))"

text \<open>Lines 107 to 122: \<^verbatim>\<open>main\<close> up to the barrier, then the rest.\<close>

definition main :: "memoria \<Rightarrow> entorno \<Rightarrow> int \<Rightarrow> int \<Rightarrow> proceso" where
  "main mem ent rango_proceso total_procesos =
     (let t0 = [EvInit, EvCommRank, EvCommSize] in
      if rango_proceso = PROCESO_ORIGEN
      then (case verificar_configuracion total_procesos of
              Inl (texto, codigo) \<Rightarrow>
                termina (t0 @ [EvVerificar total_procesos, EvPrintf texto, EvAbort codigo])
                  (Abortado codigo)
            | Inr _ \<Rightarrow>
                (case barrera ent of
                   Some codigo \<Rightarrow>
                     termina (t0 @ [EvVerificar total_procesos, EvBarrier]) (Abortado codigo)
                 | None \<Rightarrow>
                     despues_barrera mem ent rango_proceso
                       (t0 @ [EvVerificar total_procesos, EvBarrier])))
      else (case barrera ent of
              Some codigo \<Rightarrow> termina (t0 @ [EvBarrier]) (Abortado codigo)
            | None \<Rightarrow> despues_barrera mem ent rango_proceso (t0 @ [EvBarrier])))"

section \<open>The group\<close>

text \<open>
  Modelled from the spec: the barrier, the group-wide abort and the matching of sends and
  receives belong to the MPI runtime, which is not part of the sources. Following
  sections 4.3 and 5 and the glossary, an abort ends every process of the group with the
  given code; the barrier completes once every process has reached it; and a transfer is a
  rendezvous: the send of the source and the receive of the destination complete only
  together, the receive observing the message of the one matching send. Nothing else
  lets one process act on another.

  So three facts about the group decide what a process meets. They are read off two
  runs of \<^verbatim>\<open>main\<close> in an environment where no partner ever answers
  (\<open>entorno_sonda\<close>): the source aborts exactly when its validation fails, whatever its
  environment; it offers its message exactly when it gets as far as the send; and the
  destination posts its receive exactly when it gets as far as the receive, which
  depends on the barrier and on its allocations only.
\<close>

definition entorno_sonda :: entorno where
  "entorno_sonda = \<lparr>barrera = None, entrega = None, receptor = False\<rparr>"

definition sonda_origen :: "(int \<Rightarrow> memoria) \<Rightarrow> int \<Rightarrow> proceso" where
  "sonda_origen mems total_procesos =
     main (mems PROCESO_ORIGEN) entorno_sonda PROCESO_ORIGEN total_procesos"

definition aborto_del_grupo :: "(int \<Rightarrow> memoria) \<Rightarrow> int \<Rightarrow> int option" where
  "aborto_del_grupo mems total_procesos =
     (case salida (sonda_origen mems total_procesos) of
        Abortado codigo \<Rightarrow> Some codigo
      | _ \<Rightarrow> None)"

definition sonda_destino :: "(int \<Rightarrow> memoria) \<Rightarrow> int \<Rightarrow> proceso" where
  "sonda_destino mems total_procesos =
     main (mems PROCESO_DESTINO)
       (entorno_sonda\<lparr>barrera := aborto_del_grupo mems total_procesos\<rparr>)
       PROCESO_DESTINO total_procesos"

definition entorno_del_grupo :: "(int \<Rightarrow> memoria) \<Rightarrow> int \<Rightarrow> entorno" where
  "entorno_del_grupo mems total_procesos =
     \<lparr>barrera = aborto_del_grupo mems total_procesos,
      entrega = enviado (sonda_origen mems total_procesos),
      receptor = list_ex es_recepcion (traza (sonda_destino mems total_procesos))\<rparr>"

text \<open>
  The run of the group of \<open>total_procesos\<close> processes, seen from the process of rank
  \<open>rango_proceso\<close>.
\<close>

definition ejecutar :: "(int \<Rightarrow> memoria) \<Rightarrow> int \<Rightarrow> int \<Rightarrow> proceso" where
  "ejecutar mems total_procesos rango_proceso =
     main (mems rango_proceso) (entorno_del_grupo mems total_procesos)
       rango_proceso total_procesos"

text \<open>
  Concrete allocation outcomes, and the matrices of the 4 by 4 scenario of the
  specification, for evaluating the model.
\<close>

definition memoria_llena :: memoria where
  "memoria_llena = \<lparr>mem_matriz = Some memoria_sucia, mem_longitudes = Some memoria_cero,
                    mem_desplazamientos = Some memoria_sucia, mem_recibida = Some memoria_cero\<rparr>"

definition memorias :: "int \<Rightarrow> memoria" where
  "memorias rango = memoria_llena"

text \<open>An environment in which the barrier completes and the destination answers.\<close>

definition entorno_listo :: entorno where
  "entorno_listo = \<lparr>barrera = None, entrega = Some [0, 1, 2, 3, 5, 6, 7, 10, 11, 15],
                    receptor = True\<rparr>"

definition tipo_esperado_4 :: tipo_mpi where
  "tipo_esperado_4 = \<lparr>cuenta = 4, longitudes = [4, 3, 2, 1],
                      desplazamientos = [0, 5, 10, 15], comprometido = True\<rparr>"

definition matriz_inicial_4 :: "int list" where
  "matriz_inicial_4 = [0, 1, 2, 3, 4, 5, 6, 7, 8, 9, 10, 11, 12, 13, 14, 15]"

definition triangulo_4 :: "int list" where
  "triangulo_4 = [0, 1, 2, 3, 5, 6, 7, 10, 11, 15]"

definition matriz_esperada_4 :: "int list" where
  "matriz_esperada_4 = [0, 1, 2, 3, 0, 5, 6, 7, 0, 0, 10, 11, 0, 0, 0, 15]"

section \<open>Evaluating lists at numerals\<close>

declare bucle_bloques.simps [simp del]

lemma list_update_Cons_numeral:
  "(x # xs)[numeral v := y] = x # xs[numeral v - 1 := y]"
  by (simp add: numeral_eq_Suc)

lemma upt_0_numeral: "[0..<numeral n] = 0 # [Suc 0..<numeral n]"
  by (simp add: upt_conv_Cons)

lemma upt_1_numeral:
  "[Suc 0..<numeral n] = (if Suc 0 < numeral n then Suc 0 # [2..<numeral n] else [])"
  by (subst upt_rec) (simp add: numeral_2_eq_2)

lemmas evalua_listas = list_update_Cons_numeral upt_0_numeral upt_1_numeral

section \<open>The tables the builder fills\<close>

lemma take_Suc_update: "n < length xs \<Longrightarrow> take (Suc n) (xs[n := v]) = take n xs @ [v]"
  by (simp add: take_Suc_conv_app_nth)

text \<open>
  The loop invariant: when the loop is entered at row \<open>fila\<close>, the rows below \<open>fila\<close>
  are left as they are and every later row receives its two entries.
\<close>

lemma bucle_bloques_tablas:
  "0 \<le> fila \<Longrightarrow> fila \<le> dimension \<Longrightarrow> length ls = nat dimension \<Longrightarrow> length ds = nat dimension \<Longrightarrow>
   bucle_bloques dimension fila (ls, ds) =
     (take (nat fila) ls @ map (\<lambda>r. wrap32 (dimension - int r)) [nat fila..<nat dimension],
      take (nat fila) ds @ map (\<lambda>r. wrap32 (wrap32 (int r * dimension) + int r)) [nat fila..<nat dimension])"
proof (induction dimension fila "(ls, ds)" arbitrary: ls ds rule: bucle_bloques.induct)
  case (1 dimension fila ls ds)
  show ?case
  proof (cases "fila < dimension")
    case True
    have n: "nat fila < nat dimension" using True "1.prems" by simp
    have s: "nat (fila + 1) = Suc (nat fila)" using "1.prems" by simp
    have u: "[nat fila..<nat dimension] = nat fila # [Suc (nat fila)..<nat dimension]"
      using n by (simp add: upt_conv_Cons)
    have i: "int (nat fila) = fila" using "1.prems" by simp
    have "bucle_bloques dimension fila (ls, ds) =
          bucle_bloques dimension (fila + 1)
             (ls[nat fila := wrap32 (dimension - fila)],
              ds[nat fila := wrap32 (wrap32 (fila * dimension) + fila)])"
      using True by (subst bucle_bloques.simps) simp
    also have "\<dots> = (take (nat (fila + 1)) (ls[nat fila := wrap32 (dimension - fila)]) @
                       map (\<lambda>r. wrap32 (dimension - int r)) [nat (fila + 1)..<nat dimension],
                     take (nat (fila + 1)) (ds[nat fila := wrap32 (wrap32 (fila * dimension) + fila)]) @
                       map (\<lambda>r. wrap32 (wrap32 (int r * dimension) + int r)) [nat (fila + 1)..<nat dimension])"
      using True "1.prems" by (intro "1.hyps") simp_all
    also have "\<dots> = (take (nat fila) ls @ map (\<lambda>r. wrap32 (dimension - int r)) [nat fila..<nat dimension],
      take (nat fila) ds @ map (\<lambda>r. wrap32 (wrap32 (int r * dimension) + int r)) [nat fila..<nat dimension])"
      using n "1.prems" by (simp only: s u take_Suc_update list.map i append_assoc append_Cons append_Nil)
    finally show ?thesis .
  next
    case False
    then have "fila = dimension" using "1.prems" by simp
    then show ?thesis using "1.prems" by (subst bucle_bloques.simps) simp
  qed
qed

lemma generar_tablas:
  "0 \<le> dimension \<Longrightarrow>
   generar_tipo_triangular_superior (Some g1) (Some g2) dimension =
     Inr \<lparr>cuenta = dimension,
          longitudes = map (\<lambda>r. wrap32 (dimension - int r)) [0..<nat dimension],
          desplazamientos = map (\<lambda>r. wrap32 (wrap32 (int r * dimension) + int r)) [0..<nat dimension],
          comprometido = True\<rparr>"
  by (simp add: generar_tipo_triangular_superior_def bucle_bloques_tablas
        mpi_type_indexed_def mpi_type_commit_def)

lemma generar_4:
  "generar_tipo_triangular_superior (Some g1) (Some g2) 4 =
     Inr \<lparr>cuenta = 4, longitudes = [4, 3, 2, 1], desplazamientos = [0, 5, 10, 15],
          comprometido = True\<rparr>"
  by (simp add: generar_tablas wrap32_def evalua_listas)

lemma wrap32_id: "- 2147483648 \<le> x \<Longrightarrow> x < 2147483648 \<Longrightarrow> wrap32 x = x"
  by (simp add: wrap32_def)

lemma fila_por_dimension:
  assumes "1 \<le> dimension" "dimension \<le> 46340" "r < nat dimension"
  shows "0 \<le> int r * dimension" and "int r * dimension + int r < 2147483648"
proof -
  have r: "int r \<le> dimension - 1" using assms by simp
  show "0 \<le> int r * dimension" using assms by simp
  have "int r * dimension \<le> (dimension - 1) * dimension"
    using r assms by (intro mult_right_mono) simp_all
  also have "\<dots> \<le> (46340 - 1) * 46340"
    using assms by (intro mult_mono) simp_all
  finally show "int r * dimension + int r < 2147483648" using r assms by simp
qed

lemma desplazamiento_sin_desborde:
  assumes "1 \<le> dimension" "dimension \<le> 46340" "r < nat dimension"
  shows "wrap32 (wrap32 (int r * dimension) + int r) = int r * dimension + int r"
proof -
  note b = fila_por_dimension [OF assms]
  have "wrap32 (int r * dimension) = int r * dimension"
    using b by (intro wrap32_id) simp_all
  moreover have "wrap32 (int r * dimension + int r) = int r * dimension + int r"
    using b by (intro wrap32_id) simp_all
  ultimately show ?thesis by simp
qed

lemma longitud_sin_desborde:
  assumes "1 \<le> dimension" "dimension \<le> 46340" "r < nat dimension"
  shows "wrap32 (dimension - int r) = dimension - int r"
  using assms by (intro wrap32_id) simp_all

lemma generar_especificado:
  assumes "1 \<le> dimension" "dimension \<le> 46340"
  shows "generar_tipo_triangular_superior (Some g1) (Some g2) dimension =
           Inr (descriptor_especificado dimension)"
proof -
  have "map (\<lambda>r. wrap32 (dimension - int r)) [0..<nat dimension] =
        map (\<lambda>r. dimension - int r) [0..<nat dimension]"
    using assms by (intro map_cong refl longitud_sin_desborde) simp_all
  moreover have "map (\<lambda>r. wrap32 (wrap32 (int r * dimension) + int r)) [0..<nat dimension] =
        map (\<lambda>r. int r * dimension + int r) [0..<nat dimension]"
    using assms by (intro map_cong refl desplazamiento_sin_desborde) simp_all
  ultimately show ?thesis
    using assms by (simp add: generar_tablas descriptor_especificado_def)
qed

text \<open>The last row of a 46341 by 46341 matrix: its offset does not fit in 32 bits.\<close>

lemma ultima_fila_46341:
  "desplazamientos (projr (generar_tipo_triangular_superior (Some g1) (Some g2) 46341)) ! 46340
     = - 2147479016"
  "desplazamientos (projr (generar_tipo_triangular_superior (Some g1) (Some g2) 46341)) ! 46339
     = 2147441938"
  "longitudes (projr (generar_tipo_triangular_superior (Some g1) (Some g2) 46341)) ! 46340 = 1"
  by (simp_all add: generar_tablas wrap32_def)

section \<open>The offsets the descriptor names\<close>

lemma mapa_tipo_especificado:
  "mapa_tipo (descriptor_especificado dimension) =
     concat (map (bloque_fila dimension) [0..<nat dimension])"
  by (simp add: mapa_tipo_def descriptor_especificado_def zip_map_map zip_same_conv_map
        bloque_fila_def [abs_def] comp_def)

lemma set_bloque_fila:
  "set (bloque_fila dimension r) =
     {int r * dimension + int r + int k | k. k < nat (dimension - int r)}"
  by (auto simp: bloque_fila_def bloque_def)

lemma length_bloque_fila: "length (bloque_fila dimension r) = nat (dimension - int r)"
  by (simp add: bloque_fila_def bloque_def)

lemma sorted_bloque_fila: "sorted_wrt (<) (bloque_fila dimension r)"
  by (simp add: bloque_fila_def bloque_def sorted_wrt_map sorted_wrt_iff_nth_less)

lemma fila_entre_limites:
  assumes "r < nat dimension" "x \<in> set (bloque_fila dimension r)"
  shows "int r * dimension \<le> x \<and> x < (int r + 1) * dimension"
proof -
  obtain k where "k < nat (dimension - int r)" "x = int r * dimension + int r + int k"
    using assms by (auto simp: set_bloque_fila)
  then show ?thesis by (simp add: algebra_simps)
qed

text \<open>The offsets of the first \<open>m\<close> rows are listed in increasing order, below row \<open>m\<close>.\<close>

lemma filas_ordenadas:
  assumes "1 \<le> dimension"
  shows "m \<le> nat dimension \<Longrightarrow>
         sorted_wrt (<) (concat (map (bloque_fila dimension) [0..<m]))
       \<and> (\<forall>x \<in> set (concat (map (bloque_fila dimension) [0..<m])). x < int m * dimension)"
proof (induction m)
  case 0
  show ?case by simp
next
  case (Suc m)
  have "m \<le> nat dimension" using Suc.prems by simp
  note hyp = Suc.IH [OF this]
  have ih: "sorted_wrt (<) (concat (map (bloque_fila dimension) [0..<m]))"
    using hyp by (rule conjunct1)
  have below: "\<And>x. x \<in> set (concat (map (bloque_fila dimension) [0..<m])) \<Longrightarrow> x < int m * dimension"
    using hyp by blast
  have m: "m < nat dimension" using Suc.prems by simp
  have blk: "\<And>y. y \<in> set (bloque_fila dimension m) \<Longrightarrow>
               int m * dimension \<le> y \<and> y < int (Suc m) * dimension"
    using fila_entre_limites [OF m] by (simp add: algebra_simps)
  have s: "sorted_wrt (<) (concat (map (bloque_fila dimension) [0..<Suc m]))"
  proof -
    have "\<And>x y. x \<in> set (concat (map (bloque_fila dimension) [0..<m])) \<Longrightarrow>
              y \<in> set (bloque_fila dimension m) \<Longrightarrow> x < y"
      using below blk by fastforce
    then show ?thesis
      using ih sorted_bloque_fila [of dimension m]
      by (simp add: sorted_wrt_append del: set_concat)
  qed
  have b: "\<forall>x \<in> set (concat (map (bloque_fila dimension) [0..<Suc m])). x < int (Suc m) * dimension"
  proof
    fix x assume "x \<in> set (concat (map (bloque_fila dimension) [0..<Suc m]))"
    then consider "x \<in> set (concat (map (bloque_fila dimension) [0..<m]))"
      | "x \<in> set (bloque_fila dimension m)"
      by auto
    then show "x < int (Suc m) * dimension"
    proof cases
      case 1
      then have "x < int m * dimension" by (rule below)
      also have "\<dots> \<le> int (Suc m) * dimension" using assms by (simp add: algebra_simps)
      finally show ?thesis .
    next
      case 2
      then show ?thesis using blk by blast
    qed
  qed
  from s b show ?case by blast
qed

lemma distinct_mapa:
  assumes "1 \<le> dimension"
  shows "distinct (mapa_tipo (descriptor_especificado dimension))"
proof -
  have "sorted_wrt (<) (mapa_tipo (descriptor_especificado dimension))"
    unfolding mapa_tipo_especificado using filas_ordenadas [OF assms, of "nat dimension"] by simp
  then show ?thesis by (simp add: strict_sorted_iff)
qed

lemma longitud_filas:
  "m \<le> nat dimension \<Longrightarrow>
   2 * int (length (concat (map (bloque_fila dimension) [0..<m])))
     = 2 * int m * dimension - int m * (int m - 1)"
proof (induction m)
  case 0
  show ?case by simp
next
  case (Suc m)
  then have "2 * int (length (concat (map (bloque_fila dimension) [0..<m])))
     = 2 * int m * dimension - int m * (int m - 1)" by simp
  moreover have "int (nat (dimension - int m)) = dimension - int m" using Suc.prems by simp
  ultimately show ?case
    by (simp add: length_bloque_fila algebra_simps)
qed

lemma longitud_mapa:
  assumes "1 \<le> dimension"
  shows "length (mapa_tipo (descriptor_especificado dimension)) = nat (dimension * (dimension + 1) div 2)"
proof -
  have "2 * int (length (mapa_tipo (descriptor_especificado dimension)))
          = 2 * int (nat dimension) * dimension - int (nat dimension) * (int (nat dimension) - 1)"
    unfolding mapa_tipo_especificado by (rule longitud_filas) simp
  also have "\<dots> = dimension * (dimension + 1)" using assms by (simp add: algebra_simps)
  finally have "int (length (mapa_tipo (descriptor_especificado dimension))) = dimension * (dimension + 1) div 2"
    by simp
  then show ?thesis by simp
qed

lemma set_mapa:
  assumes "1 \<le> dimension"
  shows "set (mapa_tipo (descriptor_especificado dimension)) = triangulo_superior dimension"
proof (intro set_eqI iffI)
  fix x assume "x \<in> set (mapa_tipo (descriptor_especificado dimension))"
  then obtain r where r: "r < nat dimension" and "x \<in> set (bloque_fila dimension r)"
    by (auto simp: mapa_tipo_especificado)
  then obtain k where k: "k < nat (dimension - int r)" and x: "x = int r * dimension + int r + int k"
    by (auto simp: set_bloque_fila)
  have "x = int r * dimension + (int r + int k)" using x by simp
  moreover have "0 \<le> int r" "int r < dimension" "int r \<le> int r + int k" "int r + int k < dimension"
    using r k by simp_all
  ultimately show "x \<in> triangulo_superior dimension"
    unfolding triangulo_superior_def by blast
next
  fix x assume "x \<in> triangulo_superior dimension"
  then obtain r c where x: "x = r * dimension + c" and rc: "0 \<le> r" "r < dimension" "r \<le> c" "c < dimension"
    unfolding triangulo_superior_def by blast
  have "nat r < nat dimension" using rc by simp
  moreover have "nat (c - r) < nat (dimension - int (nat r))" using rc by simp
  moreover have "x = int (nat r) * dimension + int (nat r) + int (nat (c - r))" using rc x by simp
  ultimately have "x \<in> set (bloque_fila dimension (nat r))" "nat r \<in> set [0..<nat dimension]"
    unfolding set_bloque_fila by (blast, simp)
  then show "x \<in> set (mapa_tipo (descriptor_especificado dimension))"
    unfolding mapa_tipo_especificado set_concat
    by (intro UN_I [where a = "bloque_fila dimension (nat r)"]) simp_all
qed

lemma un_solo_bloque:
  assumes "1 \<le> dimension" "x \<in> set (bloque_fila dimension r)" "x \<in> set (bloque_fila dimension r')"
    "r < nat dimension" "r' < nat dimension"
  shows "r = r'"
proof -
  have "int r * dimension < (int r' + 1) * dimension" "int r' * dimension < (int r + 1) * dimension"
    using fila_entre_limites [OF assms(4) assms(2)] fila_entre_limites [OF assms(5) assms(3)]
    by simp_all
  then have "int r < int r' + 1" "int r' < int r + 1"
    using assms(1) by (simp_all add: mult_less_cancel_right)
  then show ?thesis by simp
qed

lemma bloque_del_descriptor:
  "r < nat dimension \<Longrightarrow>
   bloque (longitudes (descriptor_especificado dimension) ! r)
          (desplazamientos (descriptor_especificado dimension) ! r) = bloque_fila dimension r"
  by (simp add: descriptor_especificado_def bloque_fila_def)

lemma triangulo_no_negativo: "x \<in> triangulo_superior dimension \<Longrightarrow> 0 \<le> x"
  by (auto simp: triangulo_superior_def)

section \<open>Claims about the layout builder\<close>

text \<open>
  C2 (amended). For every dimension from 1 to 46340, the dimensions whose largest flat
  offset \<open>dimension * dimension - 1\<close> fits the 32-bit \<^verbatim>\<open>int\<close> of the offset table, and
  whatever the allocated tables held before, the builder returns a committed descriptor
  of exactly \<open>dimension\<close> blocks, block \<open>r\<close> having length \<open>dimension - r\<close> and flat
  offset \<open>r * dimension + r\<close>; for dimension 1 this is the single block of length 1 at
  offset 0.
\<close>

theorem C2_bloques_por_fila:
  assumes "1 \<le> dimension" and "dimension \<le> 46340"
  shows "\<exists>t. generar_tipo_triangular_superior (Some g1) (Some g2) dimension = Inr t
           \<and> t = descriptor_especificado dimension
           \<and> cuenta t = dimension
           \<and> comprometido t
           \<and> length (longitudes t) = nat dimension
           \<and> length (desplazamientos t) = nat dimension
           \<and> (\<forall>r < nat dimension.
                 longitudes t ! r = dimension - int r
               \<and> desplazamientos t ! r = int r * dimension + int r)"
  using assms by (simp add: generar_especificado descriptor_especificado_def)

theorem C2_bloques_por_fila_witness:
  "(1::int) \<le> 1 \<and> (1::int) \<le> 46340
   \<and> generar_tipo_triangular_superior (Some memoria_sucia) (Some memoria_cero) 1 =
       Inr \<lparr>cuenta = 1, longitudes = [1], desplazamientos = [0], comprometido = True\<rparr>"
  using C2_bloques_por_fila [of 1 memoria_sucia memoria_cero]
  by (simp add: descriptor_especificado_def)

text \<open>
  C2 as stated fails at dimension 46341: the offset of the last row, 46340 * 46341 + 46340,
  is beyond the 32-bit range and the table holds another value.
\<close>

theorem C2_counterexample:
  "desplazamientos
     (projr (generar_tipo_triangular_superior (Some memoria_cero) (Some memoria_cero) 46341))
     ! 46340 \<noteq> 46340 * 46341 + 46340"
  by (simp add: ultima_fila_46341)

text \<open>
  C3 (amended). For every dimension from 1 to 46340, the offsets covered by the emitted
  blocks are \<open>dimension * (dimension + 1) / 2\<close> distinct offsets, each of them in exactly
  one block, and they are exactly the offsets \<open>r * dimension + c\<close> with
  \<open>0 \<le> r < dimension\<close> and \<open>r \<le> c < dimension\<close>.
\<close>

theorem C3_cobertura_exacta:
  assumes "1 \<le> dimension" and "dimension \<le> 46340"
  shows "\<exists>t. generar_tipo_triangular_superior (Some g1) (Some g2) dimension = Inr t
           \<and> distinct (mapa_tipo t)
           \<and> length (mapa_tipo t) = nat (dimension * (dimension + 1) div 2)
           \<and> card (set (mapa_tipo t)) = nat (dimension * (dimension + 1) div 2)
           \<and> set (mapa_tipo t) = triangulo_superior dimension
           \<and> (\<forall>x \<in> set (mapa_tipo t).
                 \<exists>!r. r < nat dimension
                    \<and> x \<in> set (bloque (longitudes t ! r) (desplazamientos t ! r)))"
proof -
  let ?t = "descriptor_especificado dimension"
  have d: "distinct (mapa_tipo ?t)" using assms(1) by (rule distinct_mapa)
  have l: "length (mapa_tipo ?t) = nat (dimension * (dimension + 1) div 2)"
    using assms(1) by (rule longitud_mapa)
  have c: "card (set (mapa_tipo ?t)) = nat (dimension * (dimension + 1) div 2)"
    using d l by (simp add: distinct_card)
  have s: "set (mapa_tipo ?t) = triangulo_superior dimension"
    using assms(1) by (rule set_mapa)
  have u: "\<forall>x \<in> set (mapa_tipo ?t).
             \<exists>!r. r < nat dimension \<and> x \<in> set (bloque (longitudes ?t ! r) (desplazamientos ?t ! r))"
  proof
    fix x assume "x \<in> set (mapa_tipo ?t)"
    then obtain r where r: "r < nat dimension" "x \<in> set (bloque_fila dimension r)"
      by (auto simp: mapa_tipo_especificado)
    show "\<exists>!r. r < nat dimension \<and> x \<in> set (bloque (longitudes ?t ! r) (desplazamientos ?t ! r))"
    proof (rule ex1I [of _ r])
      show "r < nat dimension \<and> x \<in> set (bloque (longitudes ?t ! r) (desplazamientos ?t ! r))"
        using r by (simp add: bloque_del_descriptor)
    next
      fix r' assume "r' < nat dimension \<and> x \<in> set (bloque (longitudes ?t ! r') (desplazamientos ?t ! r'))"
      then have r': "r' < nat dimension"
        and "x \<in> set (bloque (longitudes ?t ! r') (desplazamientos ?t ! r'))"
        by simp_all
      then have "x \<in> set (bloque_fila dimension r')"
        by (simp only: bloque_del_descriptor)
      then show "r' = r" using un_solo_bloque [OF assms(1) r(2) _ r(1) r'] by simp
    qed
  qed
  show ?thesis
    using generar_especificado [OF assms, of g1 g2] d l c s u by blast
qed

theorem C3_cobertura_exacta_witness:
  "(1::int) \<le> 4 \<and> (4::int) \<le> 46340
   \<and> (\<exists>t. generar_tipo_triangular_superior (Some memoria_sucia) (Some memoria_cero) 4 = Inr t
         \<and> mapa_tipo t = [0, 1, 2, 3, 5, 6, 7, 10, 11, 15]
         \<and> distinct (mapa_tipo t)
         \<and> length (mapa_tipo t) = 10
         \<and> set (mapa_tipo t) = triangulo_superior 4)"
  using C3_cobertura_exacta [of 4 memoria_sucia memoria_cero]
  by (simp add: generar_4 mapa_tipo_def bloque_def evalua_listas)

text \<open>
  C3 as stated fails at dimension 46341: the block of the last row covers a negative
  offset, which is not of the form \<open>r * dimension + c\<close>.
\<close>

theorem C3_counterexample:
  "set (mapa_tipo
     (projr (generar_tipo_triangular_superior (Some memoria_cero) (Some memoria_cero) 46341)))
     \<noteq> triangulo_superior 46341"
proof -
  let ?t = "projr (generar_tipo_triangular_superior (Some memoria_cero) (Some memoria_cero) 46341)"
  have n: "length (longitudes ?t) = 46341" "length (desplazamientos ?t) = 46341"
    by (simp_all add: generar_tablas)
  have "(longitudes ?t ! 46340, desplazamientos ?t ! 46340) \<in> set (zip (longitudes ?t) (desplazamientos ?t))"
    using n by (simp add: in_set_zip) (intro exI [of _ 46340], simp)
  then have "(1, - 2147479016) \<in> set (zip (longitudes ?t) (desplazamientos ?t))"
    by (simp only: ultima_fila_46341)
  moreover have "- 2147479016 \<in> set (bloque 1 (- 2147479016))"
    by (simp add: bloque_def)
  ultimately have "- 2147479016 \<in> set (mapa_tipo ?t)"
    unfolding mapa_tipo_def set_concat set_map by (intro UN_I [where a = "bloque 1 (- 2147479016)"]) force+
  moreover have "- 2147479016 \<notin> triangulo_superior 46341"
    using triangulo_no_negativo [of "- 2147479016" 46341] by auto
  ultimately show ?thesis by blast
qed

text \<open>
  C4 (amended). For every dimension from 1 to 46340, the block lengths of the descriptor
  decrease by exactly 1 from each row to the next, its block offsets increase strictly
  from each row to the next, and the descriptor depends on the dimension alone: two builds
  with the same dimension, whatever the allocated tables held, give the same descriptor.
\<close>

theorem C4_invariante_del_descriptor:
  assumes "1 \<le> dimension" and "dimension \<le> 46340"
  shows "\<exists>t. generar_tipo_triangular_superior (Some g1) (Some g2) dimension = Inr t
           \<and> generar_tipo_triangular_superior (Some h1) (Some h2) dimension = Inr t
           \<and> (\<forall>r. Suc r < nat dimension \<longrightarrow>
                 longitudes t ! Suc r = longitudes t ! r - 1
               \<and> desplazamientos t ! r < desplazamientos t ! Suc r)"
proof -
  let ?t = "descriptor_especificado dimension"
  have "\<forall>r. Suc r < nat dimension \<longrightarrow>
          longitudes ?t ! Suc r = longitudes ?t ! r - 1
        \<and> desplazamientos ?t ! r < desplazamientos ?t ! Suc r"
    using assms(1) by (simp add: descriptor_especificado_def algebra_simps)
  then show ?thesis
    using generar_especificado [OF assms, of g1 g2] generar_especificado [OF assms, of h1 h2]
    by blast
qed

theorem C4_invariante_del_descriptor_witness:
  "(1::int) \<le> 4 \<and> (4::int) \<le> 46340
   \<and> generar_tipo_triangular_superior (Some memoria_sucia) (Some memoria_cero) 4
       = generar_tipo_triangular_superior (Some memoria_cero) (Some memoria_sucia) 4
   \<and> (\<exists>t. generar_tipo_triangular_superior (Some memoria_sucia) (Some memoria_cero) 4 = Inr t
         \<and> longitudes t = [4, 3, 2, 1] \<and> desplazamientos t = [0, 5, 10, 15])"
  using C4_invariante_del_descriptor [of 4 memoria_sucia memoria_cero memoria_cero memoria_sucia]
  by (simp add: generar_4)

text \<open>
  C4 as stated fails at dimension 46341: the offset of the last row is below the offset of
  the row before it.
\<close>

theorem C4_counterexample:
  "\<not> desplazamientos
       (projr (generar_tipo_triangular_superior (Some memoria_cero) (Some memoria_cero) 46341))
       ! 46339
     < desplazamientos
       (projr (generar_tipo_triangular_superior (Some memoria_cero) (Some memoria_cero) 46341))
       ! 46340"
  by (simp add: ultima_fila_46341)

section \<open>Sending and receiving with one descriptor\<close>

lemma length_escribir: "length (escribir ps buf) = length buf"
  by (induction ps buf rule: escribir.induct) simp_all

lemma nth_escribir:
  "\<forall>d \<in> set ds. 0 \<le> d \<and> d < int (length buf) \<Longrightarrow> i < length buf \<Longrightarrow>
   escribir (zip ds (map (\<lambda>d. src ! nat d) ds)) buf ! i =
     (if int i \<in> set ds then src ! i else buf ! i)"
proof (induction ds arbitrary: buf)
  case Nil
  show ?case by simp
next
  case (Cons d ds)
  let ?buf = "buf[nat d := src ! nat d]"
  have d: "0 \<le> d" "d < int (length buf)" using Cons.prems by simp_all
  have "escribir (zip ds (map (\<lambda>d. src ! nat d) ds)) ?buf ! i =
          (if int i \<in> set ds then src ! i else ?buf ! i)"
    using Cons.prems by (intro Cons.IH) simp_all
  moreover have "?buf ! i = (if int i = d then src ! i else buf ! i)"
    using d Cons.prems(2) by (auto simp: nth_list_update)
  ultimately show ?case by simp
qed

section \<open>The scenario of dimension 4\<close>

lemma crear_matriz_4_1: "crear_matriz (Some g) 4 1 = Inr matriz_inicial_4"
  by (simp add: crear_matriz_def wrap32_def evalua_listas matriz_inicial_4_def Let_def)

lemma crear_matriz_4_0:
  "crear_matriz (Some g) 4 0 = Inr [0, 0, 0, 0, 0, 0, 0, 0, 0, 0, 0, 0, 0, 0, 0, 0]"
  by (simp add: crear_matriz_def wrap32_def evalua_listas Let_def)

lemma mapa_tipo_4:
  "mapa_tipo \<lparr>cuenta = 4, longitudes = [4, 3, 2, 1], desplazamientos = [0, 5, 10, 15],
              comprometido = True\<rparr> = triangulo_4"
  by (simp add: mapa_tipo_def bloque_def evalua_listas triangulo_4_def)

lemma mpi_send_4:
  "mpi_send matriz_inicial_4
     \<lparr>cuenta = 4, longitudes = [4, 3, 2, 1], desplazamientos = [0, 5, 10, 15],
      comprometido = True\<rparr> = Inr (matriz_inicial_4, triangulo_4)"
  by (simp add: mpi_send_def mapa_tipo_4) (simp add: triangulo_4_def matriz_inicial_4_def en_rango_def)

lemma mpi_recv_4:
  "mpi_recv [0, 0, 0, 0, 0, 0, 0, 0, 0, 0, 0, 0, 0, 0, 0, 0]
     \<lparr>cuenta = 4, longitudes = [4, 3, 2, 1], desplazamientos = [0, 5, 10, 15],
      comprometido = True\<rparr> triangulo_4 = Inr matriz_esperada_4"
  by (simp add: mpi_recv_def mapa_tipo_4)
     (simp add: triangulo_4_def matriz_esperada_4_def en_rango_def evalua_listas)

lemmas constantes =
  PROCESO_ORIGEN_def PROCESO_DESTINO_def NUM_ITERACIONES_def ETIQUETA_MENSAJE_def
  dimension_matriz_def

lemma verificar_configuracion_valida:
  "2 \<le> total_procesos \<Longrightarrow> verificar_configuracion total_procesos = Inr ()"
  by (simp add: verificar_configuracion_def verificar_configuracion_con_def constantes)

lemma verificar_configuracion_invalida:
  "total_procesos < 2 \<Longrightarrow>
   verificar_configuracion total_procesos =
     Inl (''Error: Se requieren al menos 2 procesos para ejecutar este programa'' @ fin_de_linea, 1)"
  by (simp add: verificar_configuracion_def verificar_configuracion_con_def constantes)

lemma asignacion_exitosaE:
  assumes "asignacion_exitosa mem"
  obtains gm gl gd gr where "mem_matriz mem = Some gm" "mem_longitudes mem = Some gl"
    "mem_desplazamientos mem = Some gd" "mem_recibida mem = Some gr"
  using assms by (auto simp: asignacion_exitosa_def)

text \<open>The source, once the barrier has completed: it returns if the destination answers.\<close>

lemma main_origen_4:
  assumes "2 \<le> total_procesos" and "asignacion_exitosa mem" and "barrera ent = None"
  shows "main mem ent PROCESO_ORIGEN total_procesos =
     (if receptor ent
      then \<lparr>traza = [EvInit, EvCommRank, EvCommSize, EvVerificar total_procesos, EvBarrier,
                     EvCrearMatriz 4 1, EvGenerarTipo 4,
                     EvPrintf (''Matriz enviada por el proceso 0:'' @ fin_de_linea),
                     EvMostrarMatriz matriz_inicial_4 4,
                     EvSend triangulo_4 1 10,
                     EvFree matriz_inicial_4, EvTypeFree tipo_esperado_4, EvFinalize],
            enviado = Some triangulo_4,
            matriz_propia = Some matriz_inicial_4,
            tipo_propio = Some tipo_esperado_4,
            matriz_recibida = None,
            salida = Retorna 0\<rparr>
      else \<lparr>traza = [EvInit, EvCommRank, EvCommSize, EvVerificar total_procesos, EvBarrier,
                     EvCrearMatriz 4 1, EvGenerarTipo 4,
                     EvPrintf (''Matriz enviada por el proceso 0:'' @ fin_de_linea),
                     EvMostrarMatriz matriz_inicial_4 4,
                     EvSend triangulo_4 1 10],
            enviado = Some triangulo_4,
            matriz_propia = Some matriz_inicial_4,
            tipo_propio = Some tipo_esperado_4,
            matriz_recibida = None,
            salida = Bloqueado\<rparr>)"
proof -
  obtain gm gl gd gr where "mem_matriz mem = Some gm" "mem_longitudes mem = Some gl"
    "mem_desplazamientos mem = Some gd" "mem_recibida mem = Some gr"
    using assms(2) by (rule asignacion_exitosaE)
  then show ?thesis
    using assms(1,3)
    by (simp add: main_def verificar_configuracion_valida
          despues_barrera_def dimension_matriz_def crear_matriz_4_1 generar_4 rama_origen_def
          mpi_send_4 liberar_recursos_def termina_def tipo_esperado_4_def)
       (simp add: constantes)
qed

text \<open>The destination, once the barrier has completed: it waits in its receive.\<close>

lemma main_destino_4:
  assumes "asignacion_exitosa mem" and "barrera ent = None"
  shows "main mem ent PROCESO_DESTINO total_procesos =
     (case entrega ent of
        None \<Rightarrow>
          \<lparr>traza = [EvInit, EvCommRank, EvCommSize, EvBarrier,
                    EvCrearMatriz 4 1, EvGenerarTipo 4, EvCrearMatriz 4 0, EvRecv 0 10],
           enviado = None,
           matriz_propia = Some matriz_inicial_4,
           tipo_propio = Some tipo_esperado_4,
           matriz_recibida = Some [0, 0, 0, 0, 0, 0, 0, 0, 0, 0, 0, 0, 0, 0, 0, 0],
           salida = Bloqueado\<rparr>
      | Some mensaje \<Rightarrow>
          rama_destino mem ent
            [EvInit, EvCommRank, EvCommSize, EvBarrier, EvCrearMatriz 4 1, EvGenerarTipo 4]
            matriz_inicial_4 tipo_esperado_4)"
proof -
  obtain gm gl gd gr where "mem_matriz mem = Some gm" "mem_longitudes mem = Some gl"
    "mem_desplazamientos mem = Some gd" "mem_recibida mem = Some gr"
    using assms(1) by (rule asignacion_exitosaE)
  moreover have "PROCESO_DESTINO \<noteq> PROCESO_ORIGEN" by (simp add: constantes)
  ultimately show ?thesis
    using assms(2)
    by (simp add: main_def despues_barrera_def dimension_matriz_def crear_matriz_4_1
          crear_matriz_4_0 generar_4 rama_destino_def termina_def tipo_esperado_4_def
          split: option.splits)
       (simp add: constantes)
qed

lemma rama_destino_4:
  assumes "asignacion_exitosa mem" and "entrega ent = Some triangulo_4"
  shows "rama_destino mem ent
            [EvInit, EvCommRank, EvCommSize, EvBarrier, EvCrearMatriz 4 1, EvGenerarTipo 4]
            matriz_inicial_4 tipo_esperado_4 =
     \<lparr>traza = [EvInit, EvCommRank, EvCommSize, EvBarrier,
               EvCrearMatriz 4 1, EvGenerarTipo 4, EvCrearMatriz 4 0,
               EvRecv 0 10,
               EvPrintf (''Matriz recibida por el proceso 1:'' @ fin_de_linea),
               EvMostrarMatriz matriz_esperada_4 4,
               EvFree matriz_esperada_4,
               EvFree matriz_inicial_4, EvTypeFree tipo_esperado_4, EvFinalize],
      enviado = None,
      matriz_propia = Some matriz_inicial_4,
      tipo_propio = Some tipo_esperado_4,
      matriz_recibida = Some matriz_esperada_4,
      salida = Retorna 0\<rparr>"
proof -
  obtain gm gl gd gr where "mem_matriz mem = Some gm" "mem_longitudes mem = Some gl"
    "mem_desplazamientos mem = Some gd" "mem_recibida mem = Some gr"
    using assms(1) by (rule asignacion_exitosaE)
  then show ?thesis
    using assms(2)
    by (simp add: rama_destino_def dimension_matriz_def crear_matriz_4_0 mpi_recv_4
          liberar_recursos_def tipo_esperado_4_def)
       (simp add: constantes)
qed

lemma salida_despues_barrera: "salida (despues_barrera mem ent r t) \<noteq> Abortado c"
  by (simp add: despues_barrera_def rama_origen_def rama_destino_def termina_def Let_def
        split: sum.splits option.splits prod.splits)

lemma aborto_del_grupo_tamano:
  "aborto_del_grupo mems total_procesos = (if total_procesos < 2 then Some 1 else None)"
proof (cases "total_procesos < 2")
  case True
  then show ?thesis
    by (simp add: aborto_del_grupo_def sonda_origen_def main_def
          verificar_configuracion_invalida termina_def)
next
  case False
  then have v: "verificar_configuracion total_procesos = Inr ()"
    by (simp add: verificar_configuracion_valida)
  have "\<And>c. salida (sonda_origen mems total_procesos) \<noteq> Abortado c"
    by (simp add: sonda_origen_def main_def v entorno_sonda_def salida_despues_barrera)
  then show ?thesis
    using False by (simp add: aborto_del_grupo_def split: terminacion.splits)
qed

lemma barrera_del_grupo:
  "barrera (entorno_del_grupo mems total_procesos) =
     (if total_procesos < 2 then Some 1 else None)"
  by (simp add: entorno_del_grupo_def aborto_del_grupo_tamano)

lemma entrega_del_grupo:
  assumes "2 \<le> total_procesos" and "asignacion_exitosa (mems PROCESO_ORIGEN)"
  shows "entrega (entorno_del_grupo mems total_procesos) = Some triangulo_4"
proof -
  have "sonda_origen mems total_procesos =
          main (mems PROCESO_ORIGEN) entorno_sonda PROCESO_ORIGEN total_procesos"
    by (simp add: sonda_origen_def)
  also have "enviado \<dots> = Some triangulo_4"
    using assms by (subst main_origen_4) (simp_all add: entorno_sonda_def)
  finally show ?thesis by (simp add: entorno_del_grupo_def)
qed

lemma receptor_del_grupo:
  assumes "2 \<le> total_procesos" and "asignacion_exitosa (mems PROCESO_DESTINO)"
  shows "receptor (entorno_del_grupo mems total_procesos)"
proof -
  have "aborto_del_grupo mems total_procesos = None"
    using assms(1) by (simp add: aborto_del_grupo_tamano)
  then have "list_ex es_recepcion (traza (sonda_destino mems total_procesos))"
    using assms(2)
    by (simp add: sonda_destino_def main_destino_4 entorno_sonda_def es_recepcion_def)
  then show ?thesis by (simp add: entorno_del_grupo_def)
qed

lemma ejecucion_origen_valida:
  assumes "2 \<le> total_procesos" and "asignacion_exitosa (mems PROCESO_ORIGEN)"
    and "asignacion_exitosa (mems PROCESO_DESTINO)"
  shows "ejecutar mems total_procesos PROCESO_ORIGEN =
     \<lparr>traza = [EvInit, EvCommRank, EvCommSize, EvVerificar total_procesos, EvBarrier,
               EvCrearMatriz 4 1, EvGenerarTipo 4,
               EvPrintf (''Matriz enviada por el proceso 0:'' @ fin_de_linea),
               EvMostrarMatriz matriz_inicial_4 4,
               EvSend triangulo_4 1 10,
               EvFree matriz_inicial_4, EvTypeFree tipo_esperado_4, EvFinalize],
      enviado = Some triangulo_4,
      matriz_propia = Some matriz_inicial_4,
      tipo_propio = Some tipo_esperado_4,
      matriz_recibida = None,
      salida = Retorna 0\<rparr>"
proof -
  have "barrera (entorno_del_grupo mems total_procesos) = None"
    using assms(1) by (simp add: barrera_del_grupo)
  moreover have "receptor (entorno_del_grupo mems total_procesos)"
    using assms(1,3) by (rule receptor_del_grupo)
  ultimately show ?thesis
    using assms(1,2) by (simp add: ejecutar_def main_origen_4)
qed

lemma ejecucion_destino_valida:
  assumes "2 \<le> total_procesos" and "asignacion_exitosa (mems PROCESO_ORIGEN)"
    and "asignacion_exitosa (mems PROCESO_DESTINO)"
  shows "ejecutar mems total_procesos PROCESO_DESTINO =
     \<lparr>traza = [EvInit, EvCommRank, EvCommSize, EvBarrier,
               EvCrearMatriz 4 1, EvGenerarTipo 4, EvCrearMatriz 4 0,
               EvRecv 0 10,
               EvPrintf (''Matriz recibida por el proceso 1:'' @ fin_de_linea),
               EvMostrarMatriz matriz_esperada_4 4,
               EvFree matriz_esperada_4,
               EvFree matriz_inicial_4, EvTypeFree tipo_esperado_4, EvFinalize],
      enviado = None,
      matriz_propia = Some matriz_inicial_4,
      tipo_propio = Some tipo_esperado_4,
      matriz_recibida = Some matriz_esperada_4,
      salida = Retorna 0\<rparr>"
proof -
  have b: "barrera (entorno_del_grupo mems total_procesos) = None"
    using assms(1) by (simp add: barrera_del_grupo)
  have e: "entrega (entorno_del_grupo mems total_procesos) = Some triangulo_4"
    using assms(1,2) by (rule entrega_del_grupo)
  show ?thesis
    by (simp add: ejecutar_def main_destino_4 [OF assms(3) b] e rama_destino_4 [OF assms(3) e])
qed

lemma ejecucion_tercero_valida:
  assumes "2 \<le> total_procesos" and "rango \<noteq> PROCESO_ORIGEN" and "rango \<noteq> PROCESO_DESTINO"
    and "asignacion_exitosa (mems rango)"
  shows "ejecutar mems total_procesos rango =
     \<lparr>traza = [EvInit, EvCommRank, EvCommSize, EvBarrier,
               EvCrearMatriz 4 1, EvGenerarTipo 4,
               EvFree matriz_inicial_4, EvTypeFree tipo_esperado_4, EvFinalize],
      enviado = None,
      matriz_propia = Some matriz_inicial_4,
      tipo_propio = Some tipo_esperado_4,
      matriz_recibida = None,
      salida = Retorna 0\<rparr>"
proof -
  obtain gm gl gd gr where "mem_matriz (mems rango) = Some gm"
    "mem_longitudes (mems rango) = Some gl"
    "mem_desplazamientos (mems rango) = Some gd"
    "mem_recibida (mems rango) = Some gr"
    using assms(4) by (rule asignacion_exitosaE)
  moreover have "barrera (entorno_del_grupo mems total_procesos) = None"
    using assms(1) by (simp add: barrera_del_grupo)
  ultimately show ?thesis
    using assms(2,3)
    by (simp add: ejecutar_def main_def despues_barrera_def dimension_matriz_def
          crear_matriz_4_1 generar_4 liberar_recursos_def tipo_esperado_4_def)
qed

lemma menores_que_4: "(\<forall>n<4. Q (n::nat)) \<longleftrightarrow> Q 0 \<and> Q 1 \<and> Q 2 \<and> Q 3"
proof
  assume "\<forall>n<4. Q n"
  then show "Q 0 \<and> Q 1 \<and> Q 2 \<and> Q 3" by simp
next
  assume q: "Q 0 \<and> Q 1 \<and> Q 2 \<and> Q 3"
  show "\<forall>n<4. Q n"
  proof (intro allI impI)
    fix n :: nat assume "n < 4"
    then consider "n = 0" | "n = 1" | "n = 2" | "n = 3" by linarith
    then show "Q n" using q by cases simp_all
  qed
qed

lemma traza_despues_barrera:
  "\<exists>s. traza (despues_barrera mem ent r t) = t @ s
       \<and> filter es_verificacion s = [] \<and> filter es_barrera s = []"
  by (simp add: despues_barrera_def rama_origen_def rama_destino_def termina_def Let_def
        liberar_recursos_def es_verificacion_def es_barrera_def
        split: sum.splits option.splits prod.splits)

lemma sin_transferencia_tercero:
  assumes "r \<noteq> PROCESO_ORIGEN" and "r \<noteq> PROCESO_DESTINO"
  shows "\<not> list_ex es_transferencia t \<Longrightarrow>
         \<not> list_ex es_transferencia (traza (despues_barrera mem ent r t))"
  using assms
  by (simp add: despues_barrera_def termina_def Let_def liberar_recursos_def
        es_transferencia_def split: sum.splits)

section \<open>Claims about the run\<close>

text \<open>
  C1. In the fixed configuration (dimension 4, source 0, destination 1, tag 10, one
  transfer), in a group of at least two processes whose allocations succeed, the source
  matrix holds \<open>r * 4 + c\<close> at row \<open>r\<close>, column \<open>c\<close>, and after the single transfer
  the destination matrix, created as all zeros, equals the source matrix wherever
  \<open>c \<ge> r\<close> and is 0 wherever \<open>c < r\<close>: it is
  \<open>[0,1,2,3, 0,5,6,7, 0,0,10,11, 0,0,0,15]\<close>.
\<close>

theorem C1_transferencia_dimension_4:
  assumes "2 \<le> total_procesos"
    and "asignacion_exitosa (mems PROCESO_ORIGEN)"
    and "asignacion_exitosa (mems PROCESO_DESTINO)"
  shows "\<exists>origen destino.
           matriz_propia (ejecutar mems total_procesos PROCESO_ORIGEN) = Some origen
         \<and> matriz_recibida (ejecutar mems total_procesos PROCESO_DESTINO) = Some destino
         \<and> salida (ejecutar mems total_procesos PROCESO_DESTINO) = Retorna 0
         \<and> filter es_transferencia (traza (ejecutar mems total_procesos PROCESO_ORIGEN))
             = [EvSend [0, 1, 2, 3, 5, 6, 7, 10, 11, 15] 1 10]
         \<and> filter es_transferencia (traza (ejecutar mems total_procesos PROCESO_DESTINO))
             = [EvRecv 0 10]
         \<and> (\<forall>r<4. \<forall>c<4. origen ! (r * 4 + c) = int r * dimension_matriz + int c)
         \<and> (\<forall>r<4. \<forall>c<4. destino ! (r * 4 + c) = (if r \<le> c then origen ! (r * 4 + c) else 0))
         \<and> destino = [0, 1, 2, 3, 0, 5, 6, 7, 0, 0, 10, 11, 0, 0, 0, 15]"
proof -
  note o = ejecucion_origen_valida [where mems = mems, OF assms]
  note d = ejecucion_destino_valida [where mems = mems, OF assms]
  have a: "\<forall>r<4. \<forall>c<4. matriz_inicial_4 ! (r * 4 + c) = int r * dimension_matriz + int c"
    by (simp add: menores_que_4 matriz_inicial_4_def dimension_matriz_def)
  have b: "\<forall>r<4. \<forall>c<4. matriz_esperada_4 ! (r * 4 + c)
             = (if r \<le> c then matriz_inicial_4 ! (r * 4 + c) else 0)"
    by (simp add: menores_que_4 matriz_inicial_4_def matriz_esperada_4_def)
  have c: "filter es_transferencia (traza (ejecutar mems total_procesos PROCESO_ORIGEN))
             = [EvSend [0, 1, 2, 3, 5, 6, 7, 10, 11, 15] 1 10]"
    by (simp add: o es_transferencia_def triangulo_4_def)
  have e: "filter es_transferencia (traza (ejecutar mems total_procesos PROCESO_DESTINO))
             = [EvRecv 0 10]"
    by (simp add: d es_transferencia_def)
  have f: "matriz_esperada_4 = [0, 1, 2, 3, 0, 5, 6, 7, 0, 0, 10, 11, 0, 0, 0, 15]"
    by (simp add: matriz_esperada_4_def)
  have "matriz_propia (ejecutar mems total_procesos PROCESO_ORIGEN) = Some matriz_inicial_4"
    "matriz_recibida (ejecutar mems total_procesos PROCESO_DESTINO) = Some matriz_esperada_4"
    "salida (ejecutar mems total_procesos PROCESO_DESTINO) = Retorna 0"
    by (simp_all add: o d)
  then show ?thesis using a b c e f by blast
qed

theorem C1_transferencia_dimension_4_witness:
  "(2::int) \<le> 2
   \<and> asignacion_exitosa (memorias PROCESO_ORIGEN)
   \<and> asignacion_exitosa (memorias PROCESO_DESTINO)
   \<and> matriz_propia (ejecutar memorias 2 PROCESO_ORIGEN)
       = Some [0, 1, 2, 3, 4, 5, 6, 7, 8, 9, 10, 11, 12, 13, 14, 15]
   \<and> matriz_recibida (ejecutar memorias 2 PROCESO_DESTINO)
       = Some [0, 1, 2, 3, 0, 5, 6, 7, 0, 0, 10, 11, 0, 0, 0, 15]"
proof -
  have h: "asignacion_exitosa (memorias PROCESO_ORIGEN)" "asignacion_exitosa (memorias PROCESO_DESTINO)"
    by (simp_all add: asignacion_exitosa_def memorias_def memoria_llena_def)
  have o: "matriz_propia (ejecutar memorias 2 PROCESO_ORIGEN)
             = Some [0, 1, 2, 3, 4, 5, 6, 7, 8, 9, 10, 11, 12, 13, 14, 15]"
    using ejecucion_origen_valida [where mems = memorias and total_procesos = 2, OF _ h]
    by (simp add: matriz_inicial_4_def)
  show ?thesis
    using C1_transferencia_dimension_4 [where mems = memorias and total_procesos = 2, OF _ h] h o
    by auto
qed

text \<open>
  C5. The validator checks that the repetition count is 1, that source and destination
  differ and that the group has at least 2 processes; when a check fails it prints a
  message and aborts with code 1, and otherwise it returns. With every group size below
  2 (the only invalid combination the constants of the program allow) the source,
  whatever the rest of the group does, prints the message and aborts with code 1 right
  after the validation; every process of the run ends aborted with code 1 and none issues
  a send or a receive.
\<close>

theorem C5_validacion_de_configuracion:
  "(verificar_configuracion_con n orig dest total_procesos = Inr ()
      \<longleftrightarrow> n = 1 \<and> orig \<noteq> dest \<and> 2 \<le> total_procesos)
   \<and> (n \<noteq> 1 \<or> orig = dest \<or> total_procesos < 2 \<longrightarrow>
        (\<exists>texto. texto \<noteq> [] \<and> last texto = CHR 0x0A
            \<and> verificar_configuracion_con n orig dest total_procesos = Inl (texto, 1)))
   \<and> (total_procesos < 2 \<longrightarrow>
        main mem ent PROCESO_ORIGEN total_procesos =
          termina
            [EvInit, EvCommRank, EvCommSize, EvVerificar total_procesos,
             EvPrintf (''Error: Se requieren al menos 2 procesos para ejecutar este programa''
                         @ fin_de_linea),
             EvAbort 1]
            (Abortado 1)
      \<and> salida (ejecutar mems total_procesos rango) = Abortado 1
      \<and> \<not> list_ex es_transferencia (traza (ejecutar mems total_procesos rango)))"
proof (intro conjI impI)
  show "verificar_configuracion_con n orig dest total_procesos = Inr ()
      \<longleftrightarrow> n = 1 \<and> orig \<noteq> dest \<and> 2 \<le> total_procesos"
    by (auto simp: verificar_configuracion_con_def)
next
  assume "n \<noteq> 1 \<or> orig = dest \<or> total_procesos < 2"
  then show "\<exists>texto. texto \<noteq> [] \<and> last texto = CHR 0x0A
            \<and> verificar_configuracion_con n orig dest total_procesos = Inl (texto, 1)"
    by (auto simp: verificar_configuracion_con_def fin_de_linea_def)
next
  assume t: "total_procesos < 2"
  have o: "\<And>mem ent. main mem ent PROCESO_ORIGEN total_procesos =
             termina [EvInit, EvCommRank, EvCommSize, EvVerificar total_procesos,
               EvPrintf (''Error: Se requieren al menos 2 procesos para ejecutar este programa''
                           @ fin_de_linea),
               EvAbort 1] (Abortado 1)"
    using t by (simp add: main_def verificar_configuracion_invalida)
  show "main mem ent PROCESO_ORIGEN total_procesos =
          termina
            [EvInit, EvCommRank, EvCommSize, EvVerificar total_procesos,
             EvPrintf (''Error: Se requieren al menos 2 procesos para ejecutar este programa''
                         @ fin_de_linea),
             EvAbort 1]
            (Abortado 1)"
    by (rule o)
  have b: "barrera (entorno_del_grupo mems total_procesos) = Some 1"
    using t by (simp add: barrera_del_grupo)
  have e: "ejecutar mems total_procesos rango =
             (if rango = PROCESO_ORIGEN
              then termina [EvInit, EvCommRank, EvCommSize, EvVerificar total_procesos,
                     EvPrintf (''Error: Se requieren al menos 2 procesos para ejecutar este programa''
                                 @ fin_de_linea),
                     EvAbort 1] (Abortado 1)
              else termina [EvInit, EvCommRank, EvCommSize, EvBarrier] (Abortado 1))"
    by (simp add: ejecutar_def o) (simp add: main_def Let_def b)
  show "salida (ejecutar mems total_procesos rango) = Abortado 1"
    by (simp add: e termina_def)
  show "\<not> list_ex es_transferencia (traza (ejecutar mems total_procesos rango))"
    by (simp add: e termina_def es_transferencia_def)
qed

theorem C5_validacion_de_configuracion_witness:
  "(1::int) < 2
   \<and> verificar_configuracion_con 1 0 1 1 =
       Inl (''Error: Se requieren al menos 2 procesos para ejecutar este programa''
              @ fin_de_linea, 1)
   \<and> verificar_configuracion_con 1 0 1 2 = Inr ()
   \<and> salida (ejecutar memorias 1 0) = Abortado 1
   \<and> \<not> list_ex es_transferencia (traza (ejecutar memorias 1 0))"
  using C5_validacion_de_configuracion [of 1 0 1 1 memoria_llena entorno_sonda memorias 0]
  by (simp add: verificar_configuracion_con_def)

text \<open>
  C6. For every process, whatever its allocations give and whatever the rest of the group
  does: the call of the validation occurs exactly once in the trace of the source (rank 0)
  and never in the trace of another rank; in the trace of the source nothing but the three
  start-up calls precedes it, so it comes before the barrier and before the send; and no
  process issues a send or a receive before its own barrier call.
\<close>

theorem C6_validacion_antes_de_la_barrera:
  "filter es_verificacion (traza (main mem ent rango total_procesos))
     = (if rango = PROCESO_ORIGEN then [EvVerificar total_procesos] else [])
   \<and> (rango = PROCESO_ORIGEN \<longrightarrow>
        antes_del_primero es_verificacion (traza (main mem ent rango total_procesos))
          = [EvInit, EvCommRank, EvCommSize])
   \<and> \<not> list_ex es_transferencia
         (antes_del_primero es_barrera (traza (main mem ent rango total_procesos)))"
proof (cases "rango = PROCESO_ORIGEN")
  case True
  obtain s where s: "traza (despues_barrera mem ent PROCESO_ORIGEN
                       [EvInit, EvCommRank, EvCommSize, EvVerificar total_procesos, EvBarrier])
                     = [EvInit, EvCommRank, EvCommSize, EvVerificar total_procesos, EvBarrier] @ s"
    and f: "filter es_verificacion s = []"
    using traza_despues_barrera by blast
  show ?thesis
  proof (cases "total_procesos < 2")
    case True
    then show ?thesis
      using \<open>rango = PROCESO_ORIGEN\<close>
      by (simp add: main_def verificar_configuracion_invalida
            termina_def es_verificacion_def es_barrera_def es_transferencia_def
            antes_del_primero_def)
  next
    case False
    then show ?thesis
      using \<open>rango = PROCESO_ORIGEN\<close> s f
      by (simp add: main_def Let_def verificar_configuracion_valida termina_def
            es_verificacion_def es_barrera_def es_transferencia_def
            antes_del_primero_def split: option.splits)
  qed
next
  case False
  obtain s where s: "traza (despues_barrera mem ent rango [EvInit, EvCommRank, EvCommSize, EvBarrier])
                     = [EvInit, EvCommRank, EvCommSize, EvBarrier] @ s"
    and f: "filter es_verificacion s = []"
    using traza_despues_barrera by blast
  show ?thesis
    using False s f
    by (simp add: main_def Let_def termina_def es_verificacion_def es_barrera_def
          es_transferencia_def antes_del_primero_def split: option.splits)
qed

theorem C6_validacion_antes_de_la_barrera_witness:
  "filter es_verificacion (traza (ejecutar memorias 3 0)) = [EvVerificar 3]
   \<and> filter es_verificacion (traza (ejecutar memorias 3 1)) = []
   \<and> filter es_verificacion (traza (ejecutar memorias 3 2)) = []
   \<and> antes_del_primero es_verificacion (traza (ejecutar memorias 3 0))
       = [EvInit, EvCommRank, EvCommSize]"
  using C6_validacion_antes_de_la_barrera [of "memorias 0" "entorno_del_grupo memorias 3" 0 3]
    C6_validacion_antes_de_la_barrera [of "memorias 1" "entorno_del_grupo memorias 3" 1 3]
    C6_validacion_antes_de_la_barrera [of "memorias 2" "entorno_del_grupo memorias 3" 2 3]
  by (simp add: constantes ejecutar_def)

text \<open>
  C7 (amended). The builder does not test its two allocations and never fails with an
  AllocationError. For a dimension of at least 1 it returns a descriptor exactly when both
  table allocations succeed, and the descriptor it returns is complete (committed, with
  \<open>dimension\<close> lengths and \<open>dimension\<close> offsets), never a partial one; when an
  allocation fails no descriptor is returned, the first loop iteration writing through
  the null pointer.
\<close>

theorem C7_sin_comprobacion_de_memoria:
  assumes "1 \<le> dimension"
  shows "generar_tipo_triangular_superior mem_l mem_d dimension \<noteq> Inl AllocationError
       \<and> ((\<exists>t. generar_tipo_triangular_superior mem_l mem_d dimension = Inr t)
            \<longleftrightarrow> mem_l \<noteq> None \<and> mem_d \<noteq> None)
       \<and> (\<forall>t. generar_tipo_triangular_superior mem_l mem_d dimension = Inr t \<longrightarrow>
              comprometido t \<and> cuenta t = dimension
            \<and> length (longitudes t) = nat dimension
            \<and> length (desplazamientos t) = nat dimension)
       \<and> (mem_l = None \<or> mem_d = None \<longrightarrow>
            generar_tipo_triangular_superior mem_l mem_d dimension = Inl EscrituraPunteroNulo)"
proof (cases "mem_l = None \<or> mem_d = None")
  case True
  then have "generar_tipo_triangular_superior mem_l mem_d dimension = Inl EscrituraPunteroNulo"
    using assms by (auto simp: generar_tipo_triangular_superior_def split: option.splits)
  then show ?thesis using True by simp
next
  case False
  then obtain g1 g2 where "mem_l = Some g1" "mem_d = Some g2" by auto
  then show ?thesis using assms by (simp add: generar_tablas)
qed

theorem C7_sin_comprobacion_de_memoria_witness:
  "(1::int) \<le> 4
   \<and> generar_tipo_triangular_superior None (Some memoria_cero) 4 = Inl EscrituraPunteroNulo
   \<and> generar_tipo_triangular_superior (Some memoria_cero) None 4 = Inl EscrituraPunteroNulo
   \<and> (\<exists>t. generar_tipo_triangular_superior (Some memoria_sucia) (Some memoria_cero) 4 = Inr t)"
  using C7_sin_comprobacion_de_memoria [of 4 None "Some memoria_cero"]
    C7_sin_comprobacion_de_memoria [of 4 "Some memoria_cero" None]
    C7_sin_comprobacion_de_memoria [of 4 "Some memoria_sucia" "Some memoria_cero"]
  by simp

text \<open>
  C7 as stated fails: with the first table allocation failing, the builder does not fail
  with an AllocationError.
\<close>

theorem C7_counterexample:
  "generar_tipo_triangular_superior None (Some memoria_cero) 4 \<noteq> Inl AllocationError"
  by (simp add: generar_tipo_triangular_superior_def)

text \<open>
  C8. For every content of the receive buffer and every send made with the same committed
  descriptor, all of whose offsets lie inside both buffers: the send succeeds and leaves
  the source buffer as it is, the receive succeeds, and afterwards every offset named by
  the descriptor holds the value the source buffer holds at that offset, while every other
  offset holds the value it held before the call.
\<close>

theorem C8_recepcion_conserva_el_resto:
  assumes "comprometido t"
    and "list_all (en_rango origen) (mapa_tipo t)"
    and "list_all (en_rango buf) (mapa_tipo t)"
  shows "\<exists>mensaje recibido.
           mpi_send origen t = Inr (origen, mensaje)
         \<and> mpi_recv buf t mensaje = Inr recibido
         \<and> length recibido = length buf
         \<and> (\<forall>i < length buf.
               recibido ! i = (if int i \<in> set (mapa_tipo t) then origen ! i else buf ! i))"
proof -
  let ?mensaje = "map (\<lambda>d. origen ! nat d) (mapa_tipo t)"
  let ?recibido = "escribir (zip (mapa_tipo t) ?mensaje) buf"
  have s: "mpi_send origen t = Inr (origen, ?mensaje)"
    using assms by (simp add: mpi_send_def)
  have r: "mpi_recv buf t ?mensaje = Inr ?recibido"
    using assms by (simp add: mpi_recv_def)
  have b: "\<forall>d \<in> set (mapa_tipo t). 0 \<le> d \<and> d < int (length buf)"
    using assms(3) by (simp add: list_all_iff en_rango_def)
  have "\<forall>i < length buf.
          ?recibido ! i = (if int i \<in> set (mapa_tipo t) then origen ! i else buf ! i)"
    using nth_escribir [OF b] by blast
  then show ?thesis using s r length_escribir by blast
qed

theorem C8_recepcion_conserva_el_resto_witness:
  "mpi_send [0, 1, 2, 3, 4, 5, 6, 7, 8, 9, 10, 11, 12, 13, 14, 15]
     (projr (generar_tipo_triangular_superior (Some memoria_sucia) (Some memoria_cero) 4))
     = Inr ([0, 1, 2, 3, 4, 5, 6, 7, 8, 9, 10, 11, 12, 13, 14, 15],
            [0, 1, 2, 3, 5, 6, 7, 10, 11, 15])
   \<and> mpi_recv [9, 9, 9, 9, 9, 9, 9, 9, 9, 9, 9, 9, 9, 9, 9, 9]
       (projr (generar_tipo_triangular_superior (Some memoria_sucia) (Some memoria_cero) 4))
       [0, 1, 2, 3, 5, 6, 7, 10, 11, 15]
     = Inr [0, 1, 2, 3, 9, 5, 6, 7, 9, 9, 10, 11, 9, 9, 9, 15]"
  using C8_recepcion_conserva_el_resto
    [of "projr (generar_tipo_triangular_superior (Some memoria_sucia) (Some memoria_cero) 4)"
        "[0, 1, 2, 3, 4, 5, 6, 7, 8, 9, 10, 11, 12, 13, 14, 15]"
        "[9, 9, 9, 9, 9, 9, 9, 9, 9, 9, 9, 9, 9, 9, 9, 9]"]
  by (simp add: generar_4 mpi_send_def mpi_recv_def mapa_tipo_4)
     (simp add: triangulo_4_def en_rango_def evalua_listas)

text \<open>
  C9. The send does not modify the buffer it is given: whenever it succeeds, the buffer
  after the call is the buffer before the call. In a group of at least two processes
  where the allocations of the source and of the destination succeed, the send of the
  source completes, and the matrix the source goes on with and frees after the send is
  the matrix it created and displayed before the send: every element still holds its
  initial value \<open>r * 4 + c\<close>. When the destination never posts its receive, the source
  stays blocked in the send, its matrix unchanged as well.
\<close>

theorem C9_envio_no_modifica_la_matriz:
  assumes "2 \<le> total_procesos"
    and "asignacion_exitosa (mems PROCESO_ORIGEN)"
    and "asignacion_exitosa (mems PROCESO_DESTINO)"
  shows "(\<forall>buf t buf' msg. mpi_send buf t = Inr (buf', msg) \<longrightarrow> buf' = buf)
       \<and> (\<exists>matriz tipo mensaje.
             crear_matriz (mem_matriz (mems PROCESO_ORIGEN)) dimension_matriz 1 = Inr matriz
           \<and> generar_tipo_triangular_superior (mem_longitudes (mems PROCESO_ORIGEN))
               (mem_desplazamientos (mems PROCESO_ORIGEN)) dimension_matriz = Inr tipo
           \<and> mpi_send matriz tipo = Inr (matriz, mensaje)
           \<and> (\<forall>r<4. \<forall>c<4. matriz ! (r * 4 + c) = int r * dimension_matriz + int c)
           \<and> traza (ejecutar mems total_procesos PROCESO_ORIGEN) =
               [EvInit, EvCommRank, EvCommSize, EvVerificar total_procesos, EvBarrier,
                EvCrearMatriz 4 1, EvGenerarTipo 4,
                EvPrintf (''Matriz enviada por el proceso 0:'' @ fin_de_linea),
                EvMostrarMatriz matriz 4,
                EvSend mensaje 1 10,
                EvFree matriz, EvTypeFree tipo, EvFinalize]
           \<and> matriz_propia (ejecutar mems total_procesos PROCESO_ORIGEN) = Some matriz
           \<and> salida (ejecutar mems total_procesos PROCESO_ORIGEN) = Retorna 0
           \<and> (\<forall>ent. barrera ent = None \<and> \<not> receptor ent \<longrightarrow>
                 salida (main (mems PROCESO_ORIGEN) ent PROCESO_ORIGEN total_procesos) = Bloqueado
               \<and> matriz_propia (main (mems PROCESO_ORIGEN) ent PROCESO_ORIGEN total_procesos)
                   = Some matriz
               \<and> \<not> list_ex es_liberacion
                     (traza (main (mems PROCESO_ORIGEN) ent PROCESO_ORIGEN total_procesos))))"
proof
  show "\<forall>buf t buf' msg. mpi_send buf t = Inr (buf', msg) \<longrightarrow> buf' = buf"
    by (simp add: mpi_send_def split: if_splits)
next
  obtain gm gl gd gr where g: "mem_matriz (mems PROCESO_ORIGEN) = Some gm"
    "mem_longitudes (mems PROCESO_ORIGEN) = Some gl"
    "mem_desplazamientos (mems PROCESO_ORIGEN) = Some gd"
    "mem_recibida (mems PROCESO_ORIGEN) = Some gr"
    using assms(2) by (rule asignacion_exitosaE)
  have c: "crear_matriz (mem_matriz (mems PROCESO_ORIGEN)) dimension_matriz 1
             = Inr matriz_inicial_4"
    using g by (simp add: dimension_matriz_def crear_matriz_4_1)
  have t: "generar_tipo_triangular_superior (mem_longitudes (mems PROCESO_ORIGEN))
             (mem_desplazamientos (mems PROCESO_ORIGEN)) dimension_matriz = Inr tipo_esperado_4"
    using g by (simp add: dimension_matriz_def generar_4 tipo_esperado_4_def)
  have s: "mpi_send matriz_inicial_4 tipo_esperado_4 = Inr (matriz_inicial_4, triangulo_4)"
    by (simp add: tipo_esperado_4_def mpi_send_4)
  have a: "\<forall>r<4. \<forall>c<4. matriz_inicial_4 ! (r * 4 + c) = int r * dimension_matriz + int c"
    by (simp add: menores_que_4 matriz_inicial_4_def dimension_matriz_def)
  note o = ejecucion_origen_valida [where mems = mems, OF assms]
  have b: "\<forall>ent. barrera ent = None \<and> \<not> receptor ent \<longrightarrow>
             salida (main (mems PROCESO_ORIGEN) ent PROCESO_ORIGEN total_procesos) = Bloqueado
           \<and> matriz_propia (main (mems PROCESO_ORIGEN) ent PROCESO_ORIGEN total_procesos)
               = Some matriz_inicial_4
           \<and> \<not> list_ex es_liberacion
                 (traza (main (mems PROCESO_ORIGEN) ent PROCESO_ORIGEN total_procesos))"
    using assms(1,2) by (simp add: main_origen_4 es_liberacion_def)
  show "\<exists>matriz tipo mensaje.
             crear_matriz (mem_matriz (mems PROCESO_ORIGEN)) dimension_matriz 1 = Inr matriz
           \<and> generar_tipo_triangular_superior (mem_longitudes (mems PROCESO_ORIGEN))
               (mem_desplazamientos (mems PROCESO_ORIGEN)) dimension_matriz = Inr tipo
           \<and> mpi_send matriz tipo = Inr (matriz, mensaje)
           \<and> (\<forall>r<4. \<forall>c<4. matriz ! (r * 4 + c) = int r * dimension_matriz + int c)
           \<and> traza (ejecutar mems total_procesos PROCESO_ORIGEN) =
               [EvInit, EvCommRank, EvCommSize, EvVerificar total_procesos, EvBarrier,
                EvCrearMatriz 4 1, EvGenerarTipo 4,
                EvPrintf (''Matriz enviada por el proceso 0:'' @ fin_de_linea),
                EvMostrarMatriz matriz 4,
                EvSend mensaje 1 10,
                EvFree matriz, EvTypeFree tipo, EvFinalize]
           \<and> matriz_propia (ejecutar mems total_procesos PROCESO_ORIGEN) = Some matriz
           \<and> salida (ejecutar mems total_procesos PROCESO_ORIGEN) = Retorna 0
           \<and> (\<forall>ent. barrera ent = None \<and> \<not> receptor ent \<longrightarrow>
                 salida (main (mems PROCESO_ORIGEN) ent PROCESO_ORIGEN total_procesos) = Bloqueado
               \<and> matriz_propia (main (mems PROCESO_ORIGEN) ent PROCESO_ORIGEN total_procesos)
                   = Some matriz
               \<and> \<not> list_ex es_liberacion
                     (traza (main (mems PROCESO_ORIGEN) ent PROCESO_ORIGEN total_procesos)))"
    apply (rule exI [of _ matriz_inicial_4])
    apply (rule exI [of _ tipo_esperado_4])
    apply (rule exI [of _ triangulo_4])
    using c t s a b by (simp add: o)
qed

theorem C9_envio_no_modifica_la_matriz_witness:
  "(2::int) \<le> 2 \<and> asignacion_exitosa (memorias PROCESO_ORIGEN)
   \<and> asignacion_exitosa (memorias PROCESO_DESTINO)
   \<and> mpi_send [0, 1, 2, 3, 4, 5, 6, 7, 8, 9, 10, 11, 12, 13, 14, 15] tipo_esperado_4
       = Inr ([0, 1, 2, 3, 4, 5, 6, 7, 8, 9, 10, 11, 12, 13, 14, 15],
              [0, 1, 2, 3, 5, 6, 7, 10, 11, 15])
   \<and> matriz_propia (ejecutar memorias 2 PROCESO_ORIGEN)
       = Some [0, 1, 2, 3, 4, 5, 6, 7, 8, 9, 10, 11, 12, 13, 14, 15]
   \<and> salida (ejecutar memorias 2 PROCESO_ORIGEN) = Retorna 0
   \<and> salida (main (memorias PROCESO_ORIGEN) entorno_sonda PROCESO_ORIGEN 2) = Bloqueado"
proof -
  have h: "asignacion_exitosa (memorias PROCESO_ORIGEN)"
    "asignacion_exitosa (memorias PROCESO_DESTINO)"
    by (simp_all add: asignacion_exitosa_def memorias_def memoria_llena_def)
  have c: "crear_matriz (mem_matriz (memorias PROCESO_ORIGEN)) dimension_matriz 1
             = Inr [0, 1, 2, 3, 4, 5, 6, 7, 8, 9, 10, 11, 12, 13, 14, 15]"
    by (simp add: memorias_def memoria_llena_def dimension_matriz_def crear_matriz_4_1
          matriz_inicial_4_def)
  have s: "mpi_send [0, 1, 2, 3, 4, 5, 6, 7, 8, 9, 10, 11, 12, 13, 14, 15] tipo_esperado_4
       = Inr ([0, 1, 2, 3, 4, 5, 6, 7, 8, 9, 10, 11, 12, 13, 14, 15],
              [0, 1, 2, 3, 5, 6, 7, 10, 11, 15])"
    using mpi_send_4 by (simp add: tipo_esperado_4_def matriz_inicial_4_def triangulo_4_def)
  have e: "barrera entorno_sonda = None \<and> \<not> receptor entorno_sonda"
    by (simp add: entorno_sonda_def)
  show ?thesis
    using C9_envio_no_modifica_la_matriz [where mems = memorias and total_procesos = 2, OF _ h]
      h c s e
    by auto
qed

text \<open>
  C10. A process whose rank is neither 0 nor 1 never issues a send or a receive, whatever
  its allocations give and whatever the rest of the group does. When it is a member of
  the group and its allocations succeed, it creates its own matrix with the initial
  values, builds the committed descriptor of the upper triangle of dimension 4 (lengths
  4, 3, 2, 1 at offsets 0, 5, 10, 15), frees that matrix, releases that descriptor,
  finalizes and returns 0.
\<close>

theorem C10_procesos_sin_transferencia:
  "rango \<noteq> PROCESO_ORIGEN \<and> rango \<noteq> PROCESO_DESTINO \<longrightarrow>
     \<not> list_ex es_transferencia (traza (main mem ent rango total_procesos))
   \<and> \<not> list_ex es_transferencia (traza (ejecutar mems total_procesos rango))
   \<and> (0 \<le> rango \<and> rango < total_procesos \<and> asignacion_exitosa (mems rango) \<longrightarrow>
        (\<exists>matriz tipo.
            crear_matriz (mem_matriz (mems rango)) dimension_matriz 1 = Inr matriz
          \<and> generar_tipo_triangular_superior (mem_longitudes (mems rango))
              (mem_desplazamientos (mems rango)) dimension_matriz = Inr tipo
          \<and> matriz = [0, 1, 2, 3, 4, 5, 6, 7, 8, 9, 10, 11, 12, 13, 14, 15]
          \<and> tipo = \<lparr>cuenta = 4, longitudes = [4, 3, 2, 1],
                     desplazamientos = [0, 5, 10, 15], comprometido = True\<rparr>
          \<and> traza (ejecutar mems total_procesos rango) =
              [EvInit, EvCommRank, EvCommSize, EvBarrier, EvCrearMatriz 4 1, EvGenerarTipo 4,
               EvFree matriz, EvTypeFree tipo, EvFinalize]
          \<and> matriz_propia (ejecutar mems total_procesos rango) = Some matriz
          \<and> tipo_propio (ejecutar mems total_procesos rango) = Some tipo
          \<and> salida (ejecutar mems total_procesos rango) = Retorna 0))"
proof (intro impI conjI)
  assume r: "rango \<noteq> PROCESO_ORIGEN \<and> rango \<noteq> PROCESO_DESTINO"
  have m: "\<And>mem ent. \<not> list_ex es_transferencia (traza (main mem ent rango total_procesos))"
  proof -
    fix mem ent
    have "\<not> list_ex es_transferencia
            (traza (despues_barrera mem ent rango [EvInit, EvCommRank, EvCommSize, EvBarrier]))"
      using r by (intro sin_transferencia_tercero) (simp_all add: es_transferencia_def)
    then show "\<not> list_ex es_transferencia (traza (main mem ent rango total_procesos))"
      using r by (simp add: main_def Let_def termina_def es_transferencia_def
                    split: option.splits)
  qed
  show "\<not> list_ex es_transferencia (traza (main mem ent rango total_procesos))"
    by (rule m)
  show "\<not> list_ex es_transferencia (traza (ejecutar mems total_procesos rango))"
    using m by (simp add: ejecutar_def)
next
  assume r: "rango \<noteq> PROCESO_ORIGEN \<and> rango \<noteq> PROCESO_DESTINO"
    and m: "0 \<le> rango \<and> rango < total_procesos \<and> asignacion_exitosa (mems rango)"
  have "2 \<le> total_procesos" using r m by (simp add: constantes)
  note e = ejecucion_tercero_valida [where mems = mems, OF this]
  obtain gm gl gd gr where g: "mem_matriz (mems rango) = Some gm"
    "mem_longitudes (mems rango) = Some gl"
    "mem_desplazamientos (mems rango) = Some gd"
    "mem_recibida (mems rango) = Some gr"
    using m by (auto elim: asignacion_exitosaE)
  have c: "crear_matriz (mem_matriz (mems rango)) dimension_matriz 1 = Inr matriz_inicial_4"
    using g by (simp add: dimension_matriz_def crear_matriz_4_1)
  have t: "generar_tipo_triangular_superior (mem_longitudes (mems rango))
             (mem_desplazamientos (mems rango)) dimension_matriz = Inr tipo_esperado_4"
    using g by (simp add: dimension_matriz_def generar_4 tipo_esperado_4_def)
  show "\<exists>matriz tipo.
            crear_matriz (mem_matriz (mems rango)) dimension_matriz 1 = Inr matriz
          \<and> generar_tipo_triangular_superior (mem_longitudes (mems rango))
              (mem_desplazamientos (mems rango)) dimension_matriz = Inr tipo
          \<and> matriz = [0, 1, 2, 3, 4, 5, 6, 7, 8, 9, 10, 11, 12, 13, 14, 15]
          \<and> tipo = \<lparr>cuenta = 4, longitudes = [4, 3, 2, 1],
                     desplazamientos = [0, 5, 10, 15], comprometido = True\<rparr>
          \<and> traza (ejecutar mems total_procesos rango) =
              [EvInit, EvCommRank, EvCommSize, EvBarrier, EvCrearMatriz 4 1, EvGenerarTipo 4,
               EvFree matriz, EvTypeFree tipo, EvFinalize]
          \<and> matriz_propia (ejecutar mems total_procesos rango) = Some matriz
          \<and> tipo_propio (ejecutar mems total_procesos rango) = Some tipo
          \<and> salida (ejecutar mems total_procesos rango) = Retorna 0"
    apply (rule exI [of _ matriz_inicial_4])
    apply (rule exI [of _ tipo_esperado_4])
    using r m c t by (simp add: e) (simp add: matriz_inicial_4_def tipo_esperado_4_def)
qed

theorem C10_procesos_sin_transferencia_witness:
  "(2::int) \<noteq> PROCESO_ORIGEN \<and> (2::int) \<noteq> PROCESO_DESTINO
   \<and> (0::int) \<le> 2 \<and> (2::int) < 3 \<and> asignacion_exitosa (memorias 2)
   \<and> \<not> list_ex es_transferencia (traza (ejecutar memorias 3 2))
   \<and> tipo_propio (ejecutar memorias 3 2) = Some tipo_esperado_4
   \<and> traza (ejecutar memorias 3 2) =
       [EvInit, EvCommRank, EvCommSize, EvBarrier, EvCrearMatriz 4 1, EvGenerarTipo 4,
        EvFree [0, 1, 2, 3, 4, 5, 6, 7, 8, 9, 10, 11, 12, 13, 14, 15],
        EvTypeFree tipo_esperado_4, EvFinalize]
   \<and> salida (ejecutar memorias 3 2) = Retorna 0"
proof -
  have h: "(2::int) \<noteq> PROCESO_ORIGEN \<and> (2::int) \<noteq> PROCESO_DESTINO"
    "(0::int) \<le> 2 \<and> (2::int) < 3 \<and> asignacion_exitosa (memorias 2)"
    by (simp_all add: constantes asignacion_exitosa_def memorias_def memoria_llena_def)
  show ?thesis
    using C10_procesos_sin_transferencia [of 2 memoria_llena entorno_sonda 3 memorias] h
    by (auto simp: tipo_esperado_4_def)
qed

end
